theory Spec2Isabelle
  imports Main "HOL-Library.AList"
begin

section \<open>Identifiers and JavaScript conventions\<close>

text \<open>
  Identifiers are opaque strings. An optional string field (\<open>constructorId?: string\<close>)
  is a \<open>string option\<close>; a JavaScript test \<open>if (x)\<close> on such a field holds when the
  field is present and not the empty string.

  A JavaScript \<open>Map\<close> keeps its entries in insertion order with unique keys. It is
  modelled as an association list: \<open>map_of\<close> is \<open>get\<close>, \<open>AList.update\<close> is \<open>set\<close>
  (in place for an existing key, at the end for a new one) and \<open>AList.delete\<close> is
  \<open>delete\<close>.
\<close>

type_synonym SortId = string
type_synonym ConstructorId = string
type_synonym VariableName = string
type_synonym RuleId = string
type_synonym JudgmentId = string
type_synonym RecFuncId = string
type_synonym PropertyId = string
type_synonym ProofId = string
type_synonym GoalId = string

fun truthy :: "string option \<Rightarrow> bool" where
  "truthy None = False"
| "truthy (Some s) = (s \<noteq> [])"

section \<open>Terms and patterns\<close>

text \<open>
  \<open>Term\<close> and \<open>Pattern\<close> of the source carry an \<open>id\<close> field holding a fresh random
  UUID. No function of the engine reads it (equality of terms is \<open>termsEqual\<close>, which
  ignores it), so the field is left out.
\<close>

datatype Term = Term
  (term_constructorId: ConstructorId)
  (term_args: "Term list")
  (term_variableName: "VariableName option")
  (term_isVariable: bool)

datatype Pattern = Pattern
  (pat_constructorId: "ConstructorId option")
  (pat_metaVariableId: "string option")
  (pat_args: "Pattern list")

type_synonym Bindings = "(string \<times> Term) list"

fun isPatternComplete :: "Pattern \<Rightarrow> bool" where
  "isPatternComplete (Pattern c m ps) =
     (if \<not> truthy c \<and> \<not> truthy m then False
      else list_all isPatternComplete ps)"

fun termsEqual :: "Term \<Rightarrow> Term \<Rightarrow> bool"
  and termsEqualArgs :: "Term list \<Rightarrow> Term list \<Rightarrow> bool" where
  "termsEqual (Term c1 as1 v1 i1) (Term c2 as2 v2 i2) =
     (if i1 \<or> i2 then i1 = i2 \<and> v1 = v2
      else if c1 \<noteq> c2 then False
      else if length as1 \<noteq> length as2 then False
      else termsEqualArgs as1 as2)"
| "termsEqualArgs [] _ = True"
| "termsEqualArgs (a # as) [] = False"
| "termsEqualArgs (a # as) (b # bs) = (termsEqual a b \<and> termsEqualArgs as bs)"

text \<open>
  The inner loop of \<open>matchPattern\<close>: every entry of the argument's bindings is merged
  into the accumulated bindings; a key bound to a different term fails the match.
\<close>

fun mergeBindings :: "Bindings \<Rightarrow> Bindings \<Rightarrow> Bindings option" where
  "mergeBindings allBindings [] = Some allBindings"
| "mergeBindings allBindings ((key, val) # rest) =
     (case map_of allBindings key of
        Some existing \<Rightarrow>
          if \<not> termsEqual existing val then None
          else mergeBindings (AList.update key val allBindings) rest
      | None \<Rightarrow> mergeBindings (AList.update key val allBindings) rest)"

text \<open>
  \<open>matchPatternArgs\<close> is the loop over the argument positions, started with the empty
  map. It runs only after the two lengths were found equal; the equations for lists of
  different lengths are never reached.
\<close>

fun matchPattern :: "Term \<Rightarrow> Pattern \<Rightarrow> Bindings option"
  and matchPatternArgs :: "Term list \<Rightarrow> Pattern list \<Rightarrow> Bindings \<Rightarrow> Bindings option" where
  "matchPattern t (Pattern c m ps) =
     (if truthy m then Some [(the m, t)]
      else if truthy c then
        (if term_isVariable t then None
         else if term_constructorId t \<noteq> the c then None
         else if length (term_args t) \<noteq> length ps then None
         else matchPatternArgs (term_args t) ps [])
      else None)"
| "matchPatternArgs ts [] allBindings = Some allBindings"
| "matchPatternArgs [] (p # ps) allBindings = None"
| "matchPatternArgs (t # ts) (p # ps) allBindings =
     (case matchPattern t p of
        None \<Rightarrow> None
      | Some argBindings \<Rightarrow>
          (case mergeBindings allBindings argBindings of
             None \<Rightarrow> None
           | Some allBindings' \<Rightarrow> matchPatternArgs ts ps allBindings'))"

fun substitutePattern :: "Pattern \<Rightarrow> Bindings \<Rightarrow> Term option"
  and substitutePatternArgs :: "Pattern list \<Rightarrow> Bindings \<Rightarrow> Term list option" where
  "substitutePattern (Pattern c m ps) bindings =
     (if truthy m then map_of bindings (the m)
      else if truthy c then
        (case substitutePatternArgs ps bindings of
           None \<Rightarrow> None
         | Some args \<Rightarrow> Some (Term (the c) args None False))
      else None)"
| "substitutePatternArgs [] bindings = Some []"
| "substitutePatternArgs (p # ps) bindings =
     (case substitutePattern p bindings of
        None \<Rightarrow> None
      | Some argTerm \<Rightarrow>
          (case substitutePatternArgs ps bindings of
             None \<Rightarrow> None
           | Some args \<Rightarrow> Some (argTerm # args)))"

text \<open>The meta-variables a pattern reads: a meta-variable node hides its children.\<close>

fun metaVarsOf :: "Pattern \<Rightarrow> string set"
  and metaVarsOfArgs :: "Pattern list \<Rightarrow> string set" where
  "metaVarsOf (Pattern c m ps) =
     (if truthy m then {the m} else if truthy c then metaVarsOfArgs ps else {})"
| "metaVarsOfArgs [] = {}"
| "metaVarsOfArgs (p # ps) = metaVarsOf p \<union> metaVarsOfArgs ps"

text \<open>Every entry of the bindings \<open>r\<close> is an entry of the map \<open>b\<close>.\<close>

definition agrees :: "Bindings \<Rightarrow> Bindings \<Rightarrow> bool" where
  "agrees b r = (\<forall>(k, v) \<in> set r. map_of b k = Some v)"

section \<open>Formula expressions and the arithmetic simplifier\<close>

text \<open>
  The \<open>value\<close> of an integer literal is a JavaScript number; the specification
  calls it an integer and the model takes it as an unbounded \<open>int\<close>.
\<close>


datatype FormulaExpr =
    FE_var string
  | FE_constructor ConstructorId "FormulaExpr list"
  | FE_funcApp RecFuncId FormulaExpr
  | FE_int int
  | FE_emptySet
  | FE_add FormulaExpr FormulaExpr
  | FE_sub FormulaExpr FormulaExpr
  | FE_mul FormulaExpr FormulaExpr
  | FE_max FormulaExpr FormulaExpr
  | FE_min FormulaExpr FormulaExpr

primrec formulaExprEqual :: "FormulaExpr \<Rightarrow> FormulaExpr \<Rightarrow> bool" where
  "formulaExprEqual (FE_var n) b = (case b of FE_var n' \<Rightarrow> n' = n | _ \<Rightarrow> False)"
| "formulaExprEqual (FE_constructor c as) b =
     (case b of
        FE_constructor c' bs \<Rightarrow>
          c = c' \<and> length as = length bs \<and>
          list_all (\<lambda>(f, y). f y) (zip (map formulaExprEqual as) bs)
      | _ \<Rightarrow> False)"
| "formulaExprEqual (FE_funcApp f a) b =
     (case b of FE_funcApp f' a' \<Rightarrow> f = f' \<and> formulaExprEqual a a' | _ \<Rightarrow> False)"
| "formulaExprEqual (FE_int v) b = (case b of FE_int v' \<Rightarrow> v' = v | _ \<Rightarrow> False)"
| "formulaExprEqual FE_emptySet b = (case b of FE_emptySet \<Rightarrow> True | _ \<Rightarrow> False)"
| "formulaExprEqual (FE_add l r) b =
     (case b of FE_add l' r' \<Rightarrow> formulaExprEqual l l' \<and> formulaExprEqual r r' | _ \<Rightarrow> False)"
| "formulaExprEqual (FE_sub l r) b =
     (case b of FE_sub l' r' \<Rightarrow> formulaExprEqual l l' \<and> formulaExprEqual r r' | _ \<Rightarrow> False)"
| "formulaExprEqual (FE_mul l r) b =
     (case b of FE_mul l' r' \<Rightarrow> formulaExprEqual l l' \<and> formulaExprEqual r r' | _ \<Rightarrow> False)"
| "formulaExprEqual (FE_max l r) b =
     (case b of FE_max l' r' \<Rightarrow> formulaExprEqual l l' \<and> formulaExprEqual r r' | _ \<Rightarrow> False)"
| "formulaExprEqual (FE_min l r) b =
     (case b of FE_min l' r' \<Rightarrow> formulaExprEqual l l' \<and> formulaExprEqual r r' | _ \<Rightarrow> False)"

fun evalExprToNumber :: "FormulaExpr \<Rightarrow> int option" where
  "evalExprToNumber (FE_int v) = Some v"
| "evalExprToNumber (FE_add l r) =
     (case (evalExprToNumber l, evalExprToNumber r) of
        (Some lv, Some rv) \<Rightarrow> Some (lv + rv) | _ \<Rightarrow> None)"
| "evalExprToNumber (FE_sub l r) =
     (case (evalExprToNumber l, evalExprToNumber r) of
        (Some lv, Some rv) \<Rightarrow> Some (lv - rv) | _ \<Rightarrow> None)"
| "evalExprToNumber (FE_mul l r) =
     (case (evalExprToNumber l, evalExprToNumber r) of
        (Some lv, Some rv) \<Rightarrow> Some (lv * rv) | _ \<Rightarrow> None)"
| "evalExprToNumber (FE_max l r) =
     (case (evalExprToNumber l, evalExprToNumber r) of
        (Some lv, Some rv) \<Rightarrow> Some (max lv rv) | _ \<Rightarrow> None)"
| "evalExprToNumber (FE_min l r) =
     (case (evalExprToNumber l, evalExprToNumber r) of
        (Some lv, Some rv) \<Rightarrow> Some (min lv rv) | _ \<Rightarrow> None)"
| "evalExprToNumber _ = None"

definition isIntLit :: "FormulaExpr \<Rightarrow> int \<Rightarrow> bool" where
  "isIntLit e n = (case e of FE_int v \<Rightarrow> v = n | _ \<Rightarrow> False)"

definition simplifyAdd :: "FormulaExpr \<Rightarrow> FormulaExpr \<Rightarrow> FormulaExpr" where
  "simplifyAdd left right =
     (if isIntLit left 0 then right
      else if isIntLit right 0 then left
      else (case (evalExprToNumber left, evalExprToNumber right) of
              (Some lv, Some rv) \<Rightarrow> FE_int (lv + rv)
            | _ \<Rightarrow> FE_add left right))"

definition simplifySub :: "FormulaExpr \<Rightarrow> FormulaExpr \<Rightarrow> FormulaExpr" where
  "simplifySub left right =
     (if isIntLit right 0 then left
      else if formulaExprEqual left right then FE_int 0
      else (case (evalExprToNumber left, evalExprToNumber right) of
              (Some lv, Some rv) \<Rightarrow> FE_int (lv - rv)
            | _ \<Rightarrow> FE_sub left right))"

definition simplifyMul :: "FormulaExpr \<Rightarrow> FormulaExpr \<Rightarrow> FormulaExpr" where
  "simplifyMul left right =
     (if isIntLit left 0 then FE_int 0
      else if isIntLit right 0 then FE_int 0
      else if isIntLit left 1 then right
      else if isIntLit right 1 then left
      else (case (evalExprToNumber left, evalExprToNumber right) of
              (Some lv, Some rv) \<Rightarrow> FE_int (lv * rv)
            | _ \<Rightarrow> FE_mul left right))"

definition simplifyMax :: "FormulaExpr \<Rightarrow> FormulaExpr \<Rightarrow> FormulaExpr" where
  "simplifyMax left right =
     (if formulaExprEqual left right then left
      else (case (evalExprToNumber left, evalExprToNumber right) of
              (Some lv, Some rv) \<Rightarrow> FE_int (max lv rv)
            | _ \<Rightarrow> FE_max left right))"

definition simplifyMin :: "FormulaExpr \<Rightarrow> FormulaExpr \<Rightarrow> FormulaExpr" where
  "simplifyMin left right =
     (if formulaExprEqual left right then left
      else (case (evalExprToNumber left, evalExprToNumber right) of
              (Some lv, Some rv) \<Rightarrow> FE_int (min lv rv)
            | _ \<Rightarrow> FE_min left right))"

fun simplifyExpr :: "FormulaExpr \<Rightarrow> FormulaExpr" where
  "simplifyExpr (FE_add l r) =
     (case evalExprToNumber (FE_add l r) of
        Some v \<Rightarrow> FE_int v
      | None \<Rightarrow> simplifyAdd (simplifyExpr l) (simplifyExpr r))"
| "simplifyExpr (FE_sub l r) =
     (case evalExprToNumber (FE_sub l r) of
        Some v \<Rightarrow> FE_int v
      | None \<Rightarrow> simplifySub (simplifyExpr l) (simplifyExpr r))"
| "simplifyExpr (FE_mul l r) =
     (case evalExprToNumber (FE_mul l r) of
        Some v \<Rightarrow> FE_int v
      | None \<Rightarrow> simplifyMul (simplifyExpr l) (simplifyExpr r))"
| "simplifyExpr (FE_max l r) =
     (case evalExprToNumber (FE_max l r) of
        Some v \<Rightarrow> FE_int v
      | None \<Rightarrow> simplifyMax (simplifyExpr l) (simplifyExpr r))"
| "simplifyExpr (FE_min l r) =
     (case evalExprToNumber (FE_min l r) of
        Some v \<Rightarrow> FE_int v
      | None \<Rightarrow> simplifyMin (simplifyExpr l) (simplifyExpr r))"
| "simplifyExpr (FE_funcApp f a) = FE_funcApp f (simplifyExpr a)"
| "simplifyExpr (FE_constructor c as) = FE_constructor c (map simplifyExpr as)"
| "simplifyExpr (FE_int v) = FE_int v"
| "simplifyExpr (FE_var n) = FE_var n"
| "simplifyExpr FE_emptySet = FE_emptySet"

section \<open>Metamodel records\<close>

datatype SortKind = Inductive | Atom

record Sort =
  sort_id :: SortId
  sort_name :: string
  sort_description :: "string option"
  sort_kind :: SortKind
  sort_isBinderSort :: bool
  sort_color :: string
  sort_atomPrefix :: "string option"

record ConstructorArg =
  ca_id :: string
  ca_sortId :: SortId
  ca_label :: "string option"
  ca_isBinder :: "bool option"
  ca_bindsIn :: "string list option"

record Constructor =
  c_id :: ConstructorId
  c_sortId :: SortId
  c_name :: string
  c_args :: "ConstructorArg list"
  c_isTerminal :: bool

section \<open>Recursive functions over syntax\<close>

datatype FuncReturnType = RT_int | RT_set SortId | RT_inductive SortId

record FuncArg =
  fa_name :: string
  fa_sortId :: SortId
  fa_isPrincipal :: bool

datatype BinOp = Op_add | Op_sub | Op_mul | Op_max | Op_min | Op_union | Op_intersect | Op_diff

datatype CmpOp = Cmp_eq | Cmp_neq | Cmp_lt | Cmp_leq | Cmp_gt | Cmp_geq
  | Cmp_atomEq | Cmp_atomNeq | Cmp_subset

datatype FuncExpr =
    FX_int int
  | FX_empty
  | FX_singleton FuncExpr
  | FX_var string
  | FX_call RecFuncId FuncExpr
  | FX_callMulti RecFuncId "FuncExpr list"
  | FX_construct ConstructorId "FuncExpr list"
  | FX_binop BinOp FuncExpr FuncExpr
  | FX_if FuncPredicate FuncExpr FuncExpr
and FuncPredicate =
    FP_cmp CmpOp FuncExpr FuncExpr
  | FP_in FuncExpr FuncExpr
  | FP_isEmpty FuncExpr
  | FP_and FuncPredicate FuncPredicate
  | FP_or FuncPredicate FuncPredicate
  | FP_not FuncPredicate

record FuncCase =
  fc_constructorId :: ConstructorId
  fc_boundVars :: "string list"
  fc_body :: FuncExpr

record RecursiveFunc =
  rf_id :: RecFuncId
  rf_name :: string
  rf_inputSortId :: SortId
  rf_extraArgs :: "FuncArg list"
  rf_returnType :: FuncReturnType
  rf_cases :: "FuncCase list"
  rf_terminates :: "bool option"
  rf_terminationError :: "string option"

subsection \<open>Termination checking\<close>

datatype ExprTermError =
    CallNotOnVariable
  | CallNotStructural string
  | CallNoArguments
  | PrincipalNotVariable

datatype TerminationResult =
    Terminates
  | UnknownConstructor
  | InCase string ExprTermError

fun isVarExpr :: "FuncExpr \<Rightarrow> bool" where
  "isVarExpr (FX_var _) = True"
| "isVarExpr _ = False"

fun varNameOf :: "FuncExpr \<Rightarrow> string" where
  "varNameOf (FX_var n) = n"
| "varNameOf _ = []"

function (sequential) checkExprTermination ::
    "FuncExpr \<Rightarrow> RecFuncId \<Rightarrow> string set \<Rightarrow> (RecFuncId \<times> RecursiveFunc) list \<Rightarrow> ExprTermError option"
  and checkArgsTermination ::
    "FuncExpr list \<Rightarrow> RecFuncId \<Rightarrow> string set \<Rightarrow> (RecFuncId \<times> RecursiveFunc) list \<Rightarrow> ExprTermError option"
  and checkPredicateTermination ::
    "FuncPredicate \<Rightarrow> RecFuncId \<Rightarrow> string set \<Rightarrow> (RecFuncId \<times> RecursiveFunc) list \<Rightarrow> ExprTermError option"
where
  "checkExprTermination (FX_int v) selfId structuralVars allFunctions = None"
| "checkExprTermination FX_empty selfId structuralVars allFunctions = None"
| "checkExprTermination (FX_var n) selfId structuralVars allFunctions = None"
| "checkExprTermination (FX_singleton element) selfId structuralVars allFunctions =
     checkExprTermination element selfId structuralVars allFunctions"
| "checkExprTermination (FX_call funcId arg) selfId structuralVars allFunctions =
     (if funcId = selfId then
        (if \<not> isVarExpr arg then Some CallNotOnVariable
         else if varNameOf arg \<notin> structuralVars then Some (CallNotStructural (varNameOf arg))
         else None)
      else checkExprTermination arg selfId structuralVars allFunctions)"
| "checkExprTermination (FX_callMulti funcId args) selfId structuralVars allFunctions =
     (case map_of allFunctions funcId of
        None \<Rightarrow> None
      | Some targetFunc \<Rightarrow>
          if funcId = selfId then
            (case args of
               [] \<Rightarrow> Some CallNoArguments
             | principalArg # others \<Rightarrow>
                 if \<not> isVarExpr principalArg then Some PrincipalNotVariable
                 else if varNameOf principalArg \<notin> structuralVars
                   then Some (CallNotStructural (varNameOf principalArg))
                 else checkArgsTermination others selfId structuralVars allFunctions)
          else checkArgsTermination args selfId structuralVars allFunctions)"
| "checkExprTermination (FX_construct cid args) selfId structuralVars allFunctions =
     checkArgsTermination args selfId structuralVars allFunctions"
| "checkExprTermination (FX_binop op l r) selfId structuralVars allFunctions =
     (case checkExprTermination l selfId structuralVars allFunctions of
        Some leftErr \<Rightarrow> Some leftErr
      | None \<Rightarrow> checkExprTermination r selfId structuralVars allFunctions)"
| "checkExprTermination (FX_if c t e) selfId structuralVars allFunctions =
     (case checkPredicateTermination c selfId structuralVars allFunctions of
        Some condErr \<Rightarrow> Some condErr
      | None \<Rightarrow>
          (case checkExprTermination t selfId structuralVars allFunctions of
             Some thenErr \<Rightarrow> Some thenErr
           | None \<Rightarrow> checkExprTermination e selfId structuralVars allFunctions))"
| "checkArgsTermination [] selfId structuralVars allFunctions = None"
| "checkArgsTermination (arg # args) selfId structuralVars allFunctions =
     (case checkExprTermination arg selfId structuralVars allFunctions of
        Some argErr \<Rightarrow> Some argErr
      | None \<Rightarrow> checkArgsTermination args selfId structuralVars allFunctions)"
| "checkPredicateTermination (FP_cmp op l r) selfId structuralVars allFunctions =
     (case checkExprTermination l selfId structuralVars allFunctions of
        Some leftErr \<Rightarrow> Some leftErr
      | None \<Rightarrow> checkExprTermination r selfId structuralVars allFunctions)"
| "checkPredicateTermination (FP_in element s) selfId structuralVars allFunctions =
     (case checkExprTermination element selfId structuralVars allFunctions of
        Some elemErr \<Rightarrow> Some elemErr
      | None \<Rightarrow> checkExprTermination s selfId structuralVars allFunctions)"
| "checkPredicateTermination (FP_isEmpty s) selfId structuralVars allFunctions =
     checkExprTermination s selfId structuralVars allFunctions"
| "checkPredicateTermination (FP_and l r) selfId structuralVars allFunctions =
     (case checkPredicateTermination l selfId structuralVars allFunctions of
        Some lErr \<Rightarrow> Some lErr
      | None \<Rightarrow> checkPredicateTermination r selfId structuralVars allFunctions)"
| "checkPredicateTermination (FP_or l r) selfId structuralVars allFunctions =
     (case checkPredicateTermination l selfId structuralVars allFunctions of
        Some lErr \<Rightarrow> Some lErr
      | None \<Rightarrow> checkPredicateTermination r selfId structuralVars allFunctions)"
| "checkPredicateTermination (FP_not p) selfId structuralVars allFunctions =
     checkPredicateTermination p selfId structuralVars allFunctions"
  by pat_completeness auto
termination
  by (relation "measure (\<lambda>x. case x of Inl (e, _) \<Rightarrow> size e | Inr (Inl (es, _)) \<Rightarrow> size_list size es | Inr (Inr (p, _)) \<Rightarrow> size p)") auto

text \<open>
  The bound variables of a case that stand for arguments of the function's input sort.
  A position past the end of \<open>boundVars\<close>, or an empty name there, adds nothing.
\<close>

fun structuralVarsOf :: "ConstructorArg list \<Rightarrow> string list \<Rightarrow> SortId \<Rightarrow> string set" where
  "structuralVarsOf [] boundVars inputSortId = {}"
| "structuralVarsOf (arg # args) [] inputSortId = {}"
| "structuralVarsOf (arg # args) (v # vs) inputSortId =
     (if ca_sortId arg = inputSortId \<and> v \<noteq> [] then {v} else {})
       \<union> structuralVarsOf args vs inputSortId"

fun checkCases ::
    "FuncCase list \<Rightarrow> RecursiveFunc \<Rightarrow> (ConstructorId \<times> Constructor) list
       \<Rightarrow> (RecFuncId \<times> RecursiveFunc) list \<Rightarrow> TerminationResult" where
  "checkCases [] func constructors allFunctions = Terminates"
| "checkCases (funcCase # rest) func constructors allFunctions =
     (case map_of constructors (fc_constructorId funcCase) of
        None \<Rightarrow> UnknownConstructor
      | Some constructor \<Rightarrow>
          (case checkExprTermination (fc_body funcCase) (rf_id func)
                  (structuralVarsOf (c_args constructor) (fc_boundVars funcCase) (rf_inputSortId func))
                  allFunctions of
             Some error \<Rightarrow> InCase (c_name constructor) error
           | None \<Rightarrow> checkCases rest func constructors allFunctions))"

definition checkTermination ::
    "RecursiveFunc \<Rightarrow> (ConstructorId \<times> Constructor) list
       \<Rightarrow> (RecFuncId \<times> RecursiveFunc) list \<Rightarrow> TerminationResult" where
  "checkTermination func constructors allFunctions =
     checkCases (rf_cases func) func constructors allFunctions"

subsection \<open>Function evaluation\<close>

text \<open>
  A \<open>FuncValue\<close> is a number, a set of atom names or a term. The evaluator returns
  \<open>null\<close> when it is stuck; that is the inner \<open>None\<close> of its result.

  The evaluator recurses through the function registry, so nothing bounds its depth.
  The model counts the nested calls of \<open>evaluateFunc\<close> and \<open>evaluateFuncMulti\<close> with a
  fuel argument: the outer \<open>None\<close> of the result says that the fuel ran out before the
  call returned. A JavaScript call returns a value exactly when some amount of fuel
  gives \<open>Some\<close> of it.
\<close>

datatype FuncValue = V_num int | V_set "string set" | V_term Term

type_synonym TermEnv = "(string \<times> Term) list"

fun bindVars :: "string list \<Rightarrow> Term list \<Rightarrow> TermEnv \<Rightarrow> TermEnv" where
  "bindVars [] args termEnv = termEnv"
| "bindVars (v # vs) [] termEnv = termEnv"
| "bindVars (v # vs) (t # ts) termEnv =
     bindVars vs ts (if v \<noteq> [] then AList.update v t termEnv else termEnv)"

text \<open>
  The loop of \<open>callMulti\<close> over the extra arguments: position \<open>i\<close> of \<open>extraArgs\<close> is
  paired with argument \<open>i + 1\<close> of the call; only a variable bound in the caller's
  environment is passed on.
\<close>

fun bindExtraArgs :: "FuncArg list \<Rightarrow> FuncExpr list \<Rightarrow> TermEnv \<Rightarrow> TermEnv \<Rightarrow> TermEnv" where
  "bindExtraArgs [] argExprs termEnv extraTermEnv = extraTermEnv"
| "bindExtraArgs (argDef # defs) [] termEnv extraTermEnv = extraTermEnv"
| "bindExtraArgs (argDef # defs) (argExpr # argExprs) termEnv extraTermEnv =
     bindExtraArgs defs argExprs termEnv
       (case argExpr of
          FX_var name \<Rightarrow>
            (case map_of termEnv name of
               Some t \<Rightarrow> AList.update (fa_name argDef) t extraTermEnv
             | None \<Rightarrow> extraTermEnv)
        | _ \<Rightarrow> extraTermEnv)"

definition isAtomTerm :: "Term \<Rightarrow> bool" where
  "isAtomTerm t = (term_isVariable t \<and> truthy (term_variableName t))"

text \<open>The atom name a variable of the environment stands for, if it is bound to an atom.\<close>

definition atomOfVar :: "FuncExpr \<Rightarrow> TermEnv \<Rightarrow> string option" where
  "atomOfVar e termEnv =
     (case e of
        FX_var name \<Rightarrow>
          (case map_of termEnv name of
             Some t \<Rightarrow> if isAtomTerm t then term_variableName t else None
           | None \<Rightarrow> None)
      | _ \<Rightarrow> None)"

fun evalBinop :: "BinOp \<Rightarrow> FuncValue option \<Rightarrow> FuncValue option \<Rightarrow> FuncValue option" where
  "evalBinop Op_add (Some (V_num l)) (Some (V_num r)) = Some (V_num (l + r))"
| "evalBinop Op_sub (Some (V_num l)) (Some (V_num r)) = Some (V_num (l - r))"
| "evalBinop Op_mul (Some (V_num l)) (Some (V_num r)) = Some (V_num (l * r))"
| "evalBinop Op_max (Some (V_num l)) (Some (V_num r)) = Some (V_num (max l r))"
| "evalBinop Op_min (Some (V_num l)) (Some (V_num r)) = Some (V_num (min l r))"
| "evalBinop Op_union (Some (V_set l)) (Some (V_set r)) = Some (V_set (l \<union> r))"
| "evalBinop Op_intersect (Some (V_set l)) (Some (V_set r)) = Some (V_set (l \<inter> r))"
| "evalBinop Op_diff (Some (V_set l)) (Some (V_set r)) = Some (V_set (l - r))"
| "evalBinop _ _ _ = None"

text \<open>
  \<open>left === right\<close> on two values: numbers compare by value; two terms are two
  objects, each built by its own evaluation, and never identical.
\<close>

fun strictEqual :: "FuncValue \<Rightarrow> FuncValue \<Rightarrow> bool" where
  "strictEqual (V_num l) (V_num r) = (l = r)"
| "strictEqual _ _ = False"

fun evalEq :: "FuncValue option \<Rightarrow> FuncValue option \<Rightarrow> bool option" where
  "evalEq None _ = None"
| "evalEq _ None = None"
| "evalEq (Some (V_set l)) (Some (V_set r)) = Some (l = r)"
| "evalEq (Some l) (Some r) = Some (strictEqual l r)"

fun evalCmp :: "CmpOp \<Rightarrow> FuncValue option \<Rightarrow> FuncValue option \<Rightarrow> bool option" where
  "evalCmp Cmp_eq l r = evalEq l r"
| "evalCmp Cmp_neq l r = (case evalEq l r of None \<Rightarrow> None | Some eq \<Rightarrow> Some (\<not> eq))"
| "evalCmp Cmp_lt (Some (V_num l)) (Some (V_num r)) = Some (l < r)"
| "evalCmp Cmp_leq (Some (V_num l)) (Some (V_num r)) = Some (l \<le> r)"
| "evalCmp Cmp_gt (Some (V_num l)) (Some (V_num r)) = Some (l > r)"
| "evalCmp Cmp_geq (Some (V_num l)) (Some (V_num r)) = Some (l \<ge> r)"
| "evalCmp Cmp_subset (Some (V_set l)) (Some (V_set r)) = Some (l \<subseteq> r)"
| "evalCmp _ _ _ = None"

text \<open>\<open>atomEq\<close> and \<open>atomNeq\<close> look both sides up in the environment and evaluate nothing.\<close>

definition evalAtomCmp :: "bool \<Rightarrow> FuncExpr \<Rightarrow> FuncExpr \<Rightarrow> TermEnv \<Rightarrow> bool option" where
  "evalAtomCmp negated l r termEnv =
     (case (l, r) of
        (FX_var ln, FX_var rn) \<Rightarrow>
          (case (map_of termEnv ln, map_of termEnv rn) of
             (Some leftTerm, Some rightTerm) \<Rightarrow>
               if \<not> term_isVariable leftTerm \<or> \<not> term_isVariable rightTerm then None
               else Some ((term_variableName leftTerm = term_variableName rightTerm) \<noteq> negated)
           | _ \<Rightarrow> None)
      | _ \<Rightarrow> None)"

function (sequential)
  evaluateFunc :: "nat \<Rightarrow> RecursiveFunc \<Rightarrow> Term \<Rightarrow> (RecFuncId \<times> RecursiveFunc) list
      \<Rightarrow> (ConstructorId \<times> Constructor) list \<Rightarrow> FuncValue option option"
  and evaluateFuncMulti :: "nat \<Rightarrow> RecursiveFunc \<Rightarrow> Term \<Rightarrow> TermEnv \<Rightarrow> (RecFuncId \<times> RecursiveFunc) list
      \<Rightarrow> (ConstructorId \<times> Constructor) list \<Rightarrow> FuncValue option option"
  and evaluateExpr :: "nat \<Rightarrow> FuncExpr \<Rightarrow> TermEnv \<Rightarrow> (RecFuncId \<times> RecursiveFunc) list
      \<Rightarrow> (ConstructorId \<times> Constructor) list \<Rightarrow> RecursiveFunc \<Rightarrow> FuncValue option option"
  and evaluateArgs :: "nat \<Rightarrow> FuncExpr list \<Rightarrow> TermEnv \<Rightarrow> (RecFuncId \<times> RecursiveFunc) list
      \<Rightarrow> (ConstructorId \<times> Constructor) list \<Rightarrow> RecursiveFunc \<Rightarrow> Term list option option"
  and evaluatePredicate :: "nat \<Rightarrow> FuncPredicate \<Rightarrow> TermEnv \<Rightarrow> (RecFuncId \<times> RecursiveFunc) list
      \<Rightarrow> (ConstructorId \<times> Constructor) list \<Rightarrow> RecursiveFunc \<Rightarrow> bool option option"
where
  "evaluateFunc 0 func t functions constructors = None"
| "evaluateFunc (Suc fuel) func t functions constructors =
     (if isAtomTerm t then Some None
      else
        (case find (\<lambda>c. fc_constructorId c = term_constructorId t) (rf_cases func) of
           None \<Rightarrow> Some None
         | Some matchingCase \<Rightarrow>
             (case map_of constructors (term_constructorId t) of
                None \<Rightarrow> Some None
              | Some constructor \<Rightarrow>
                  evaluateExpr fuel (fc_body matchingCase)
                    (bindVars (fc_boundVars matchingCase) (term_args t) [])
                    functions constructors func)))"
| "evaluateFuncMulti 0 func principalTerm extraEnv functions constructors = None"
| "evaluateFuncMulti (Suc fuel) func principalTerm extraEnv functions constructors =
     (if isAtomTerm principalTerm then Some None
      else
        (case find (\<lambda>c. fc_constructorId c = term_constructorId principalTerm) (rf_cases func) of
           None \<Rightarrow> Some None
         | Some matchingCase \<Rightarrow>
             (case map_of constructors (term_constructorId principalTerm) of
                None \<Rightarrow> Some None
              | Some constructor \<Rightarrow>
                  evaluateExpr fuel (fc_body matchingCase)
                    (bindVars (fc_boundVars matchingCase) (term_args principalTerm) extraEnv)
                    functions constructors func)))"
| "evaluateExpr fuel (FX_int v) termEnv functions constructors currentFunc = Some (Some (V_num v))"
| "evaluateExpr fuel FX_empty termEnv functions constructors currentFunc = Some (Some (V_set {}))"
| "evaluateExpr fuel (FX_var name) termEnv functions constructors currentFunc = Some None"
| "evaluateExpr fuel (FX_singleton element) termEnv functions constructors currentFunc =
     (case evaluateExpr fuel element termEnv functions constructors currentFunc of
        None \<Rightarrow> None
      | Some elem \<Rightarrow>
          (case atomOfVar element termEnv of
             Some atomName \<Rightarrow> Some (Some (V_set {atomName}))
           | None \<Rightarrow> Some None))"
| "evaluateExpr fuel (FX_call funcId arg) termEnv functions constructors currentFunc =
     (case map_of functions funcId of
        None \<Rightarrow> Some None
      | Some func \<Rightarrow>
          (case arg of
             FX_var name \<Rightarrow>
               (case map_of termEnv name of
                  None \<Rightarrow> Some None
                | Some argTerm \<Rightarrow> evaluateFunc fuel func argTerm functions constructors)
           | _ \<Rightarrow> Some None))"
| "evaluateExpr fuel (FX_callMulti funcId args) termEnv functions constructors currentFunc =
     (case map_of functions funcId of
        None \<Rightarrow> Some None
      | Some func \<Rightarrow>
          (case args of
             [] \<Rightarrow> Some None
           | FX_var name # otherArgs \<Rightarrow>
               (case map_of termEnv name of
                  None \<Rightarrow> Some None
                | Some principalTerm \<Rightarrow>
                    evaluateFuncMulti fuel func principalTerm
                      (bindExtraArgs (rf_extraArgs func) otherArgs termEnv termEnv)
                      functions constructors)
           | _ # otherArgs \<Rightarrow> Some None))"
| "evaluateExpr fuel (FX_construct constructorId args) termEnv functions constructors currentFunc =
     (case map_of constructors constructorId of
        None \<Rightarrow> Some None
      | Some constr \<Rightarrow>
          (case evaluateArgs fuel args termEnv functions constructors currentFunc of
             None \<Rightarrow> None
           | Some None \<Rightarrow> Some None
           | Some (Some evaluatedArgs) \<Rightarrow>
               Some (Some (V_term (Term constructorId evaluatedArgs None False)))))"
| "evaluateExpr fuel (FX_binop op l r) termEnv functions constructors currentFunc =
     (case evaluateExpr fuel l termEnv functions constructors currentFunc of
        None \<Rightarrow> None
      | Some left \<Rightarrow>
          (case evaluateExpr fuel r termEnv functions constructors currentFunc of
             None \<Rightarrow> None
           | Some right \<Rightarrow> Some (evalBinop op left right)))"
| "evaluateExpr fuel (FX_if cond thenE elseE) termEnv functions constructors currentFunc =
     (case evaluatePredicate fuel cond termEnv functions constructors currentFunc of
        None \<Rightarrow> None
      | Some None \<Rightarrow> Some None
      | Some (Some condResult) \<Rightarrow>
          if condResult then evaluateExpr fuel thenE termEnv functions constructors currentFunc
          else evaluateExpr fuel elseE termEnv functions constructors currentFunc)"
| "evaluateArgs fuel [] termEnv functions constructors currentFunc = Some (Some [])"
| "evaluateArgs fuel (argExpr # rest) termEnv functions constructors currentFunc =
     (case evaluateExpr fuel argExpr termEnv functions constructors currentFunc of
        None \<Rightarrow> None
      | Some argVal \<Rightarrow>
          (case (case argVal of
                   Some (V_term t) \<Rightarrow> Some t
                 | _ \<Rightarrow> (case argExpr of FX_var name \<Rightarrow> map_of termEnv name | _ \<Rightarrow> None)) of
             None \<Rightarrow> Some None
           | Some t \<Rightarrow>
               (case evaluateArgs fuel rest termEnv functions constructors currentFunc of
                  None \<Rightarrow> None
                | Some None \<Rightarrow> Some None
                | Some (Some ts) \<Rightarrow> Some (Some (t # ts)))))"
| "evaluatePredicate fuel (FP_cmp op l r) termEnv functions constructors currentFunc =
     (if op = Cmp_atomEq then Some (evalAtomCmp False l r termEnv)
      else if op = Cmp_atomNeq then Some (evalAtomCmp True l r termEnv)
      else
        (case evaluateExpr fuel l termEnv functions constructors currentFunc of
           None \<Rightarrow> None
         | Some left \<Rightarrow>
             (case evaluateExpr fuel r termEnv functions constructors currentFunc of
                None \<Rightarrow> None
              | Some right \<Rightarrow> Some (evalCmp op left right))))"
| "evaluatePredicate fuel (FP_in element s) termEnv functions constructors currentFunc =
     (case evaluateExpr fuel s termEnv functions constructors currentFunc of
        None \<Rightarrow> None
      | Some (Some (V_set members)) \<Rightarrow>
          (case atomOfVar element termEnv of
             Some atomName \<Rightarrow> Some (Some (atomName \<in> members))
           | None \<Rightarrow> Some None)
      | Some _ \<Rightarrow> Some None)"
| "evaluatePredicate fuel (FP_isEmpty s) termEnv functions constructors currentFunc =
     (case evaluateExpr fuel s termEnv functions constructors currentFunc of
        None \<Rightarrow> None
      | Some (Some (V_set members)) \<Rightarrow> Some (Some (members = {}))
      | Some _ \<Rightarrow> Some None)"
| "evaluatePredicate fuel (FP_and l r) termEnv functions constructors currentFunc =
     (case evaluatePredicate fuel l termEnv functions constructors currentFunc of
        None \<Rightarrow> None
      | Some left \<Rightarrow>
          (case evaluatePredicate fuel r termEnv functions constructors currentFunc of
             None \<Rightarrow> None
           | Some right \<Rightarrow>
               Some (case (left, right) of (Some a, Some b) \<Rightarrow> Some (a \<and> b) | _ \<Rightarrow> None)))"
| "evaluatePredicate fuel (FP_or l r) termEnv functions constructors currentFunc =
     (case evaluatePredicate fuel l termEnv functions constructors currentFunc of
        None \<Rightarrow> None
      | Some left \<Rightarrow>
          (case evaluatePredicate fuel r termEnv functions constructors currentFunc of
             None \<Rightarrow> None
           | Some right \<Rightarrow>
               Some (case (left, right) of (Some a, Some b) \<Rightarrow> Some (a \<or> b) | _ \<Rightarrow> None)))"
| "evaluatePredicate fuel (FP_not p) termEnv functions constructors currentFunc =
     (case evaluatePredicate fuel p termEnv functions constructors currentFunc of
        None \<Rightarrow> None
      | Some inner \<Rightarrow> Some (case inner of None \<Rightarrow> None | Some b \<Rightarrow> Some (\<not> b)))"
  by pat_completeness auto
termination
  by (relation "inv_image (less_than <*lex*> less_than)
        (\<lambda>x. case x of
           Inl (Inl (fuel, _)) \<Rightarrow> (fuel, 0)
         | Inl (Inr (fuel, _)) \<Rightarrow> (fuel, 0)
         | Inr (Inl (fuel, e, _)) \<Rightarrow> (fuel, Suc (size e))
         | Inr (Inr (Inl (fuel, es, _))) \<Rightarrow> (fuel, Suc (size_list size es))
         | Inr (Inr (Inr (fuel, p, _))) \<Rightarrow> (fuel, Suc (size p)))") auto

subsection \<open>A registry with two mutually recursive functions\<close>

text \<open>
  Peano numerals \<open>Z\<close> and \<open>S(n)\<close> of sort \<open>N\<close>, and two functions with principal sort
  \<open>N\<close> and one extra argument \<open>k\<close> of sort \<open>N\<close>:
  \<open>f(Z, k) = g(k, k)\<close>, \<open>f(S(n), k) = g(n, n)\<close>, \<open>g(Z, k) = f(k, k)\<close>, \<open>g(S(m), k) = 0\<close>.
  Neither body calls its own function.
\<close>

definition peanoConstructors :: "(ConstructorId \<times> Constructor) list" where
  "peanoConstructors =
     [(''cZ'', \<lparr>c_id = ''cZ'', c_sortId = ''N'', c_name = ''Z'', c_args = [], c_isTerminal = True\<rparr>),
      (''cS'', \<lparr>c_id = ''cS'', c_sortId = ''N'', c_name = ''S'',
                c_args = [\<lparr>ca_id = ''a0'', ca_sortId = ''N'', ca_label = Some ''n'',
                           ca_isBinder = None, ca_bindsIn = None\<rparr>],
                c_isTerminal = False\<rparr>)]"

definition mutualF :: RecursiveFunc where
  "mutualF =
     \<lparr>rf_id = ''f'', rf_name = ''f'', rf_inputSortId = ''N'',
      rf_extraArgs = [\<lparr>fa_name = ''k'', fa_sortId = ''N'', fa_isPrincipal = False\<rparr>],
      rf_returnType = RT_int,
      rf_cases =
        [\<lparr>fc_constructorId = ''cZ'', fc_boundVars = [],
          fc_body = FX_callMulti ''g'' [FX_var ''k'', FX_var ''k'']\<rparr>,
         \<lparr>fc_constructorId = ''cS'', fc_boundVars = [''n''],
          fc_body = FX_callMulti ''g'' [FX_var ''n'', FX_var ''n'']\<rparr>],
      rf_terminates = Some True, rf_terminationError = None\<rparr>"

definition mutualG :: RecursiveFunc where
  "mutualG =
     \<lparr>rf_id = ''g'', rf_name = ''g'', rf_inputSortId = ''N'',
      rf_extraArgs = [\<lparr>fa_name = ''k'', fa_sortId = ''N'', fa_isPrincipal = False\<rparr>],
      rf_returnType = RT_int,
      rf_cases =
        [\<lparr>fc_constructorId = ''cZ'', fc_boundVars = [],
          fc_body = FX_callMulti ''f'' [FX_var ''k'', FX_var ''k'']\<rparr>,
         \<lparr>fc_constructorId = ''cS'', fc_boundVars = [''m''],
          fc_body = FX_int 0\<rparr>],
      rf_terminates = Some True, rf_terminationError = None\<rparr>"

definition mutualFunctions :: "(RecFuncId \<times> RecursiveFunc) list" where
  "mutualFunctions = [(''f'', mutualF), (''g'', mutualG)]"

definition termZ :: Term where
  "termZ = Term ''cZ'' [] None False"

definition termS :: "Term \<Rightarrow> Term" where
  "termS n = Term ''cS'' [n] None False"

section \<open>Judgments, rules and derivations\<close>

record Judgment =
  j_id :: JudgmentId
  j_name :: string
  j_symbol :: string
  j_separators :: "string list"
  j_argSorts :: "(SortId \<times> string) list"
  j_color :: string

record JudgmentInstance =
  ji_id :: string
  ji_judgmentId :: JudgmentId
  ji_args :: "Pattern list"

datatype RuleCmp = RC_eq | RC_neq | RC_lt | RC_leq | RC_gt | RC_geq

datatype RuleFuncPredicate =
    RFP_cmp RuleCmp RecFuncId Pattern FuncExpr
  | RFP_isEmpty RecFuncId Pattern
  | RFP_notEmpty RecFuncId Pattern
  | RFP_in Pattern RecFuncId Pattern
  | RFP_notIn Pattern RecFuncId Pattern

record SideCondition =
  sc_id :: string
  sc_predicate :: RuleFuncPredicate

record InferenceRule =
  r_id :: RuleId
  r_name :: string
  r_premises :: "JudgmentInstance list"
  r_sideConditions :: "SideCondition list"
  r_conclusion :: JudgmentInstance
  r_position :: "int \<times> int"

record MetaVariable =
  mv_id :: string
  mv_name :: string
  mv_sortId :: SortId

datatype Derivation = Derivation
  (d_ruleName: string)
  (d_ruleId: RuleId)
  (d_conclusion: "JudgmentId \<times> Term list")
  (d_premises: "Derivation list")

definition isJudgmentInstanceComplete :: "JudgmentInstance \<Rightarrow> bool" where
  "isJudgmentInstanceComplete instance = list_all isPatternComplete (ji_args instance)"

definition isRuleComplete :: "InferenceRule \<Rightarrow> bool" where
  "isRuleComplete rule =
     (isJudgmentInstanceComplete (r_conclusion rule)
      \<and> list_all isJudgmentInstanceComplete (r_premises rule))"

subsection \<open>Syntax-directedness analysis\<close>

text \<open>
  An \<open>OverlapInfo\<close> also carries a description for display, built from the names of the
  two rules and the position; it is left out.
\<close>

record OverlapInfo =
  ov_rule1Id :: RuleId
  ov_rule2Id :: RuleId
  ov_overlappingPosition :: nat

record SyntaxDirectedAnalysis =
  sda_isSyntaxDirected :: bool
  sda_overlaps :: "OverlapInfo list"

datatype JsError = TypeError

function (sequential) patternsCanOverlap :: "Pattern \<Rightarrow> Pattern \<Rightarrow> bool"
  and patternsCanOverlapArgs :: "Pattern list \<Rightarrow> Pattern list \<Rightarrow> bool" where
  "patternsCanOverlap (Pattern c1 m1 args1) (Pattern c2 m2 args2) =
     (if truthy m1 \<or> truthy m2 then True
      else if truthy c1 \<and> truthy c2 \<and> c1 \<noteq> c2 then False
      else if c1 = c2 then patternsCanOverlapArgs args1 args2
      else True)"
| "patternsCanOverlapArgs (p1 # ps1) (p2 # ps2) =
     (if \<not> patternsCanOverlap p1 p2 then False else patternsCanOverlapArgs ps1 ps2)"
| "patternsCanOverlapArgs _ _ = True"
  by pat_completeness auto
termination
  by (relation "measure (\<lambda>x. case x of Inl (p, _) \<Rightarrow> size p | Inr (ps, _) \<Rightarrow> size_list size ps)") auto

text \<open>
  The loop over the positions of the first rule's conclusion. When the second rule has
  fewer conclusion arguments, its pattern at the position is \<open>undefined\<close>:
  \<open>patternsCanOverlap\<close> still answers \<open>true\<close> if the first pattern is a meta-variable, and
  otherwise reads a field of \<open>undefined\<close>, which throws.
\<close>

fun overlapPositions ::
    "InferenceRule \<Rightarrow> InferenceRule \<Rightarrow> nat \<Rightarrow> Pattern list \<Rightarrow> Pattern list \<Rightarrow> JsError + OverlapInfo list" where
  "overlapPositions rule1 rule2 pos [] ps2 = Inr []"
| "overlapPositions rule1 rule2 pos (pattern1 # ps1) [] =
     (if truthy (pat_metaVariableId pattern1) then
        (case overlapPositions rule1 rule2 (Suc pos) ps1 [] of
           Inl e \<Rightarrow> Inl e
         | Inr rest \<Rightarrow>
             Inr (\<lparr>ov_rule1Id = r_id rule1, ov_rule2Id = r_id rule2, ov_overlappingPosition = pos\<rparr> # rest))
      else Inl TypeError)"
| "overlapPositions rule1 rule2 pos (pattern1 # ps1) (pattern2 # ps2) =
     (case overlapPositions rule1 rule2 (Suc pos) ps1 ps2 of
        Inl e \<Rightarrow> Inl e
      | Inr rest \<Rightarrow>
          if patternsCanOverlap pattern1 pattern2 then
            Inr (\<lparr>ov_rule1Id = r_id rule1, ov_rule2Id = r_id rule2, ov_overlappingPosition = pos\<rparr> # rest)
          else Inr rest)"

fun overlapsWithLater :: "InferenceRule \<Rightarrow> InferenceRule list \<Rightarrow> JsError + OverlapInfo list" where
  "overlapsWithLater rule1 [] = Inr []"
| "overlapsWithLater rule1 (rule2 # later) =
     (case overlapPositions rule1 rule2 0 (ji_args (r_conclusion rule1)) (ji_args (r_conclusion rule2)) of
        Inl e \<Rightarrow> Inl e
      | Inr here \<Rightarrow>
          (case overlapsWithLater rule1 later of
             Inl e \<Rightarrow> Inl e
           | Inr rest \<Rightarrow> Inr (here @ rest)))"

fun overlapsOfPairs :: "InferenceRule list \<Rightarrow> JsError + OverlapInfo list" where
  "overlapsOfPairs [] = Inr []"
| "overlapsOfPairs (rule1 # later) =
     (case overlapsWithLater rule1 later of
        Inl e \<Rightarrow> Inl e
      | Inr here \<Rightarrow>
          (case overlapsOfPairs later of
             Inl e \<Rightarrow> Inl e
           | Inr rest \<Rightarrow> Inr (here @ rest)))"

definition analyzesSyntaxDirected ::
    "Judgment \<Rightarrow> InferenceRule list \<Rightarrow> (ConstructorId \<times> Constructor) list
       \<Rightarrow> JsError + SyntaxDirectedAnalysis" where
  "analyzesSyntaxDirected judgment rules constructors =
     (case overlapsOfPairs (filter (\<lambda>r. ji_judgmentId (r_conclusion r) = j_id judgment) rules) of
        Inl e \<Rightarrow> Inl e
      | Inr overlaps \<Rightarrow>
          Inr \<lparr>sda_isSyntaxDirected = (length overlaps = 0), sda_overlaps = overlaps\<rparr>)"

subsection \<open>Backward derivation search\<close>

definition getRulesForJudgment :: "(RuleId \<times> InferenceRule) list \<Rightarrow> JudgmentId \<Rightarrow> InferenceRule list" where
  "getRulesForJudgment rules judgmentId =
     filter (\<lambda>r. ji_judgmentId (r_conclusion r) = judgmentId \<and> isRuleComplete r) (map snd rules)"

text \<open>
  The loop that matches the input terms against the conclusion patterns, position by
  position, merging the bindings; the two lists have the same length when it runs.
\<close>

fun matchConclusion :: "Term list \<Rightarrow> Pattern list \<Rightarrow> Bindings \<Rightarrow> Bindings option" where
  "matchConclusion [] ps allBindings = Some allBindings"
| "matchConclusion (t # ts) [] allBindings = None"
| "matchConclusion (t # ts) (p # ps) allBindings =
     (case matchPattern t p of
        None \<Rightarrow> None
      | Some bindings \<Rightarrow>
          (case mergeBindings allBindings bindings of
             None \<Rightarrow> None
           | Some allBindings' \<Rightarrow> matchConclusion ts ps allBindings'))"

function (sequential)
  buildDerivation :: "(RuleId \<times> InferenceRule) list \<Rightarrow> JudgmentId \<Rightarrow> Term list \<Rightarrow> nat \<Rightarrow> Derivation option"
  and tryRules :: "(RuleId \<times> InferenceRule) list \<Rightarrow> InferenceRule list \<Rightarrow> JudgmentId \<Rightarrow> Term list \<Rightarrow> nat
      \<Rightarrow> Derivation option"
  and derivePremises :: "(RuleId \<times> InferenceRule) list \<Rightarrow> JudgmentInstance list \<Rightarrow> Bindings \<Rightarrow> nat
      \<Rightarrow> Derivation list option"
where
  "buildDerivation rules judgmentId terms depth =
     (if depth > 10 then None
      else tryRules rules (getRulesForJudgment rules judgmentId) judgmentId terms depth)"
| "tryRules rules [] judgmentId terms depth = None"
| "tryRules rules (rule # rest) judgmentId terms depth =
     (if length (ji_args (r_conclusion rule)) \<noteq> length terms
        then tryRules rules rest judgmentId terms depth
      else
        (case matchConclusion terms (ji_args (r_conclusion rule)) [] of
           None \<Rightarrow> tryRules rules rest judgmentId terms depth
         | Some allBindings \<Rightarrow>
             (case derivePremises rules (r_premises rule) allBindings depth of
                None \<Rightarrow> tryRules rules rest judgmentId terms depth
              | Some premiseDerivations \<Rightarrow>
                  Some (Derivation (r_name rule) (r_id rule) (judgmentId, terms) premiseDerivations))))"
| "derivePremises rules [] allBindings depth = Some []"
| "derivePremises rules (premise # rest) allBindings depth =
     (case substitutePatternArgs (ji_args premise) allBindings of
        None \<Rightarrow> None
      | Some premiseTerms \<Rightarrow>
          (case buildDerivation rules (ji_judgmentId premise) premiseTerms (depth + 1) of
             None \<Rightarrow> None
           | Some premiseDerivation \<Rightarrow>
               (case derivePremises rules rest allBindings depth of
                  None \<Rightarrow> None
                | Some others \<Rightarrow> Some (premiseDerivation # others))))"
  by pat_completeness auto
termination
  by (relation "inv_image (less_than <*lex*> less_than)
        (\<lambda>x. case x of
           Inl (_, _, _, depth) \<Rightarrow> (if depth > 10 then 0 else 3 * (11 - depth) + 3, 0)
         | Inr (Inl (_, rs, _, _, depth)) \<Rightarrow> (3 * (11 - depth) + 2, length rs)
         | Inr (Inr (_, ps, _, depth)) \<Rightarrow> (3 * (11 - depth) + 1, length ps))") auto

subsection \<open>The Peano even/odd example\<close>

text \<open>
  The rules that \<open>initializeWithExamples\<close> enters into the store, in insertion order:
  \<open>E-Zero\<close> (\<open>Z even\<close>), \<open>E-Succ\<close> (\<open>n odd\<close> gives \<open>S(n) even\<close>) and \<open>O-Succ\<close>
  (\<open>n even\<close> gives \<open>S(n) odd\<close>), over the constructors \<open>peanoConstructors\<close> and the
  meta-variable \<open>n\<close>. The store draws every id as a fresh UUID; the names below stand for
  them.
\<close>

definition patZ :: Pattern where
  "patZ = Pattern (Some ''cZ'') None []"

definition patN :: Pattern where
  "patN = Pattern None (Some ''mvN'') []"

definition patS :: "Pattern \<Rightarrow> Pattern" where
  "patS p = Pattern (Some ''cS'') None [p]"

definition ruleEZero :: InferenceRule where
  "ruleEZero =
     \<lparr>r_id = ''rEZero'', r_name = ''E-Zero'', r_premises = [], r_sideConditions = [],
      r_conclusion = \<lparr>ji_id = ''i1'', ji_judgmentId = ''even'', ji_args = [patZ]\<rparr>,
      r_position = (50, 50)\<rparr>"

definition ruleESucc :: InferenceRule where
  "ruleESucc =
     \<lparr>r_id = ''rESucc'', r_name = ''E-Succ'',
      r_premises = [\<lparr>ji_id = ''i2'', ji_judgmentId = ''odd'', ji_args = [patN]\<rparr>],
      r_sideConditions = [],
      r_conclusion = \<lparr>ji_id = ''i3'', ji_judgmentId = ''even'', ji_args = [patS patN]\<rparr>,
      r_position = (300, 50)\<rparr>"

definition ruleOSucc :: InferenceRule where
  "ruleOSucc =
     \<lparr>r_id = ''rOSucc'', r_name = ''O-Succ'',
      r_premises = [\<lparr>ji_id = ''i4'', ji_judgmentId = ''even'', ji_args = [patN]\<rparr>],
      r_sideConditions = [],
      r_conclusion = \<lparr>ji_id = ''i5'', ji_judgmentId = ''odd'', ji_args = [patS patN]\<rparr>,
      r_position = (50, 50)\<rparr>"

definition peanoRules :: "(RuleId \<times> InferenceRule) list" where
  "peanoRules = [(''rEZero'', ruleEZero), (''rESucc'', ruleESucc), (''rOSucc'', ruleOSucc)]"

subsection \<open>A binary judgment whose rules differ in the first position\<close>

text \<open>
  A judgment \<open>n \<le> m\<close> over Peano numerals with the rules \<open>L-Zero\<close>, concluding
  \<open>Z \<le> m\<close>, and \<open>L-Succ\<close>, concluding \<open>S(n) \<le> m\<close>.
\<close>

definition patM :: Pattern where
  "patM = Pattern None (Some ''mvM'') []"

definition leqJudgment :: Judgment where
  "leqJudgment =
     \<lparr>j_id = ''leq'', j_name = ''leq'', j_symbol = ''leq'', j_separators = [[], ''leq'', []],
      j_argSorts = [(''N'', ''n''), (''N'', ''m'')], j_color = ''blue''\<rparr>"

definition ruleLZero :: InferenceRule where
  "ruleLZero =
     \<lparr>r_id = ''rLZero'', r_name = ''L-Zero'', r_premises = [], r_sideConditions = [],
      r_conclusion = \<lparr>ji_id = ''i6'', ji_judgmentId = ''leq'', ji_args = [patZ, patM]\<rparr>,
      r_position = (50, 50)\<rparr>"

definition ruleLSucc :: InferenceRule where
  "ruleLSucc =
     \<lparr>r_id = ''rLSucc'', r_name = ''L-Succ'', r_premises = [], r_sideConditions = [],
      r_conclusion = \<lparr>ji_id = ''i7'', ji_judgmentId = ''leq'', ji_args = [patS patN, patM]\<rparr>,
      r_position = (270, 50)\<rparr>"

section \<open>First-order formulas\<close>

text \<open>
  A \<open>Formula\<close> of the source is an object with a \<open>kind\<close> tag. Kinds that carry the same
  fields and that the source treats alike are one constructor here, with the kind as
  its first argument: the two quantifiers, the three binary connectives, the eight
  comparisons with a \<open>left\<close> and a \<open>right\<close> expression, and the three function
  predicates.
\<close>

datatype QuantKind = K_forall | K_exists

datatype ConnKind = K_implies | K_and | K_or

datatype CmpKind = K_termEq | K_termNeq | K_numEq | K_numNeq | K_numLeq | K_numLt | K_numGeq | K_numGt

datatype FuncCmpKind = K_funcEq | K_funcLeq | K_funcLt

datatype Formula =
    F_quant QuantKind string SortId Formula
  | F_conn ConnKind Formula Formula
  | F_not Formula
  | F_judgment JudgmentId "FormulaExpr list"
  | F_cmp CmpKind FormulaExpr FormulaExpr
  | F_func FuncCmpKind RecFuncId FormulaExpr FormulaExpr
  | F_setEmpty RecFuncId FormulaExpr
  | F_setIn FormulaExpr RecFuncId FormulaExpr
  | F_true
  | F_false

record ProofVariable =
  v_name :: string
  v_sortId :: SortId

record ProofHypothesis =
  h_id :: string
  h_name :: string
  h_formula :: Formula

record ProofContext =
  ctx_variables :: "ProofVariable list"
  ctx_hypotheses :: "ProofHypothesis list"

record ProofGoal =
  g_id :: GoalId
  g_context :: ProofContext
  g_goal :: Formula

subsection \<open>Substitution and syntactic equality\<close>

fun substituteFormulaExpr :: "FormulaExpr \<Rightarrow> string \<Rightarrow> FormulaExpr \<Rightarrow> FormulaExpr" where
  "substituteFormulaExpr (FE_var name) varName replacement =
     (if name = varName then replacement else FE_var name)"
| "substituteFormulaExpr (FE_constructor c args) varName replacement =
     FE_constructor c (map (\<lambda>a. substituteFormulaExpr a varName replacement) args)"
| "substituteFormulaExpr (FE_funcApp f arg) varName replacement =
     FE_funcApp f (substituteFormulaExpr arg varName replacement)"
| "substituteFormulaExpr (FE_add l r) varName replacement =
     FE_add (substituteFormulaExpr l varName replacement) (substituteFormulaExpr r varName replacement)"
| "substituteFormulaExpr (FE_sub l r) varName replacement =
     FE_sub (substituteFormulaExpr l varName replacement) (substituteFormulaExpr r varName replacement)"
| "substituteFormulaExpr (FE_mul l r) varName replacement =
     FE_mul (substituteFormulaExpr l varName replacement) (substituteFormulaExpr r varName replacement)"
| "substituteFormulaExpr (FE_max l r) varName replacement =
     FE_max (substituteFormulaExpr l varName replacement) (substituteFormulaExpr r varName replacement)"
| "substituteFormulaExpr (FE_min l r) varName replacement =
     FE_min (substituteFormulaExpr l varName replacement) (substituteFormulaExpr r varName replacement)"
| "substituteFormulaExpr (FE_int v) varName replacement = FE_int v"
| "substituteFormulaExpr FE_emptySet varName replacement = FE_emptySet"

fun substituteFormula :: "Formula \<Rightarrow> string \<Rightarrow> FormulaExpr \<Rightarrow> Formula" where
  "substituteFormula (F_quant q boundName sortId body) varName replacement =
     (if boundName = varName then F_quant q boundName sortId body
      else F_quant q boundName sortId (substituteFormula body varName replacement))"
| "substituteFormula (F_conn k l r) varName replacement =
     F_conn k (substituteFormula l varName replacement) (substituteFormula r varName replacement)"
| "substituteFormula (F_not body) varName replacement =
     F_not (substituteFormula body varName replacement)"
| "substituteFormula (F_judgment j args) varName replacement =
     F_judgment j (map (\<lambda>a. substituteFormulaExpr a varName replacement) args)"
| "substituteFormula (F_cmp k l r) varName replacement =
     F_cmp k (substituteFormulaExpr l varName replacement) (substituteFormulaExpr r varName replacement)"
| "substituteFormula (F_func k f arg val) varName replacement =
     F_func k f (substituteFormulaExpr arg varName replacement) (substituteFormulaExpr val varName replacement)"
| "substituteFormula (F_setEmpty f arg) varName replacement =
     F_setEmpty f (substituteFormulaExpr arg varName replacement)"
| "substituteFormula (F_setIn element f arg) varName replacement =
     F_setIn (substituteFormulaExpr element varName replacement) f (substituteFormulaExpr arg varName replacement)"
| "substituteFormula F_true varName replacement = F_true"
| "substituteFormula F_false varName replacement = F_false"

primrec formulaEqual :: "Formula \<Rightarrow> Formula \<Rightarrow> bool" where
  "formulaEqual (F_quant q v s body) b =
     (case b of
        F_quant q' v' s' body' \<Rightarrow> q = q' \<and> v = v' \<and> s = s' \<and> formulaEqual body body'
      | _ \<Rightarrow> False)"
| "formulaEqual (F_conn k l r) b =
     (case b of
        F_conn k' l' r' \<Rightarrow> k = k' \<and> formulaEqual l l' \<and> formulaEqual r r'
      | _ \<Rightarrow> False)"
| "formulaEqual (F_not body) b =
     (case b of F_not body' \<Rightarrow> formulaEqual body body' | _ \<Rightarrow> False)"
| "formulaEqual (F_judgment j args) b =
     (case b of
        F_judgment j' args' \<Rightarrow>
          j = j' \<and> length args = length args' \<and> list_all2 formulaExprEqual args args'
      | _ \<Rightarrow> False)"
| "formulaEqual (F_cmp k l r) b =
     (case b of
        F_cmp k' l' r' \<Rightarrow> k = k' \<and> formulaExprEqual l l' \<and> formulaExprEqual r r'
      | _ \<Rightarrow> False)"
| "formulaEqual (F_func k f arg val) b =
     (case b of
        F_func k' f' arg' val' \<Rightarrow>
          k = k' \<and> f = f' \<and> formulaExprEqual arg arg' \<and> formulaExprEqual val val'
      | _ \<Rightarrow> False)"
| "formulaEqual (F_setEmpty f arg) b =
     (case b of F_setEmpty f' arg' \<Rightarrow> f = f' \<and> formulaExprEqual arg arg' | _ \<Rightarrow> False)"
| "formulaEqual (F_setIn element f arg) b =
     (case b of
        F_setIn element' f' arg' \<Rightarrow>
          f = f' \<and> formulaExprEqual element element' \<and> formulaExprEqual arg arg'
      | _ \<Rightarrow> False)"
| "formulaEqual F_true b = (case b of F_true \<Rightarrow> True | _ \<Rightarrow> False)"
| "formulaEqual F_false b = (case b of F_false \<Rightarrow> True | _ \<Rightarrow> False)"

subsection \<open>Linear arithmetic with hypotheses\<close>

text \<open>The loops over the hypotheses: some hypothesis bounds the expression as required.\<close>

definition hypNonNegative :: "FormulaExpr \<Rightarrow> ProofHypothesis list \<Rightarrow> bool" where
  "hypNonNegative expr hypotheses =
     list_ex (\<lambda>h. case h_formula h of
                F_cmp K_numGeq l r \<Rightarrow>
                  formulaExprEqual l expr \<and> (case evalExprToNumber r of Some rv \<Rightarrow> rv \<le> 0 | None \<Rightarrow> False)
              | F_cmp K_numGt l r \<Rightarrow>
                  formulaExprEqual l expr \<and> (case evalExprToNumber r of Some rv \<Rightarrow> rv < 0 | None \<Rightarrow> False)
              | _ \<Rightarrow> False) hypotheses"

definition hypPositive :: "FormulaExpr \<Rightarrow> ProofHypothesis list \<Rightarrow> bool" where
  "hypPositive expr hypotheses =
     list_ex (\<lambda>h. case h_formula h of
                F_cmp K_numGt l r \<Rightarrow>
                  formulaExprEqual l expr \<and> (case evalExprToNumber r of Some rv \<Rightarrow> rv \<ge> 0 | None \<Rightarrow> False)
              | F_cmp K_numGeq l r \<Rightarrow>
                  formulaExprEqual l expr \<and> (case evalExprToNumber r of Some rv \<Rightarrow> rv > 0 | None \<Rightarrow> False)
              | _ \<Rightarrow> False) hypotheses"

definition hypGeq :: "FormulaExpr \<Rightarrow> FormulaExpr \<Rightarrow> ProofHypothesis list \<Rightarrow> bool" where
  "hypGeq left right hypotheses =
     list_ex (\<lambda>h. case h_formula h of
                F_cmp K_numGeq l r \<Rightarrow> formulaExprEqual l left \<and> formulaExprEqual r right
              | F_cmp K_numGt l r \<Rightarrow> formulaExprEqual l left \<and> formulaExprEqual r right
              | _ \<Rightarrow> False) hypotheses"

fun isNonNegative :: "FormulaExpr \<Rightarrow> ProofHypothesis list \<Rightarrow> bool" where
  "isNonNegative (FE_add l r) hypotheses =
     (case evalExprToNumber (FE_add l r) of
        Some val \<Rightarrow> val \<ge> 0
      | None \<Rightarrow> hypNonNegative (FE_add l r) hypotheses
          \<or> (isNonNegative l hypotheses \<and> isNonNegative r hypotheses))"
| "isNonNegative (FE_mul l r) hypotheses =
     (case evalExprToNumber (FE_mul l r) of
        Some val \<Rightarrow> val \<ge> 0
      | None \<Rightarrow> hypNonNegative (FE_mul l r) hypotheses
          \<or> (isNonNegative l hypotheses \<and> isNonNegative r hypotheses))"
| "isNonNegative (FE_max l r) hypotheses =
     (case evalExprToNumber (FE_max l r) of
        Some val \<Rightarrow> val \<ge> 0
      | None \<Rightarrow> hypNonNegative (FE_max l r) hypotheses
          \<or> (isNonNegative l hypotheses \<or> isNonNegative r hypotheses))"
| "isNonNegative (FE_min l r) hypotheses =
     (case evalExprToNumber (FE_min l r) of
        Some val \<Rightarrow> val \<ge> 0
      | None \<Rightarrow> hypNonNegative (FE_min l r) hypotheses
          \<or> (isNonNegative l hypotheses \<and> isNonNegative r hypotheses))"
| "isNonNegative expr hypotheses =
     (case evalExprToNumber expr of
        Some val \<Rightarrow> val \<ge> 0
      | None \<Rightarrow> hypNonNegative expr hypotheses)"

fun isPositive :: "FormulaExpr \<Rightarrow> ProofHypothesis list \<Rightarrow> bool" where
  "isPositive (FE_add l r) hypotheses =
     (case evalExprToNumber (FE_add l r) of
        Some val \<Rightarrow> val > 0
      | None \<Rightarrow> hypPositive (FE_add l r) hypotheses
          \<or> (isPositive l hypotheses \<and> isNonNegative r hypotheses)
          \<or> (isNonNegative l hypotheses \<and> isPositive r hypotheses))"
| "isPositive expr hypotheses =
     (case evalExprToNumber expr of
        Some val \<Rightarrow> val > 0
      | None \<Rightarrow> hypPositive expr hypotheses)"

fun canProveGeq :: "FormulaExpr \<Rightarrow> FormulaExpr \<Rightarrow> ProofHypothesis list \<Rightarrow> bool" where
  "canProveGeq (FE_add a b) right hypotheses =
     (if hypGeq (FE_add a b) right hypotheses then True
      else if formulaExprEqual (FE_add a b) right then True
      else
        (case (evalExprToNumber (FE_add a b), evalExprToNumber right) of
           (Some lv, Some rv) \<Rightarrow> lv \<ge> rv
         | (None, Some rv) \<Rightarrow>
             if rv = 0 then isNonNegative (FE_add a b) hypotheses
             else (canProveGeq a right hypotheses \<and> isNonNegative b hypotheses)
                \<or> (canProveGeq b right hypotheses \<and> isNonNegative a hypotheses)
         | (_, None) \<Rightarrow>
             (canProveGeq a right hypotheses \<and> isNonNegative b hypotheses)
             \<or> (canProveGeq b right hypotheses \<and> isNonNegative a hypotheses)))"
| "canProveGeq left right hypotheses =
     (if hypGeq left right hypotheses then True
      else if formulaExprEqual left right then True
      else
        (case (evalExprToNumber left, evalExprToNumber right) of
           (Some lv, Some rv) \<Rightarrow> lv \<ge> rv
         | (None, Some rv) \<Rightarrow> if rv = 0 then isNonNegative left hypotheses else False
         | (_, None) \<Rightarrow> False))"

record SimplifyResult =
  sr_solved :: bool
  sr_newFormula :: "Formula option"

definition tryLinearArithmetic :: "Formula \<Rightarrow> ProofHypothesis list \<Rightarrow> SimplifyResult" where
  "tryLinearArithmetic formula hypotheses =
     (case formula of
        F_cmp K_numGeq l r \<Rightarrow>
          \<lparr>sr_solved = canProveGeq l r hypotheses, sr_newFormula = None\<rparr>
      | F_cmp K_numGt l r \<Rightarrow>
          \<lparr>sr_solved = (evalExprToNumber r = Some 0 \<and> isPositive l hypotheses), sr_newFormula = None\<rparr>
      | F_cmp K_numLeq l r \<Rightarrow>
          \<lparr>sr_solved = canProveGeq r l hypotheses, sr_newFormula = None\<rparr>
      | F_cmp K_numLt l r \<Rightarrow>
          \<lparr>sr_solved = (evalExprToNumber l = Some 0 \<and> isPositive r hypotheses), sr_newFormula = None\<rparr>
      | _ \<Rightarrow> \<lparr>sr_solved = False, sr_newFormula = None\<rparr>)"

subsection \<open>Formula simplification\<close>

fun isNumKind :: "CmpKind \<Rightarrow> bool" where
  "isNumKind K_termEq = False"
| "isNumKind K_termNeq = False"
| "isNumKind _ = True"

fun compareNumbers :: "CmpKind \<Rightarrow> int \<Rightarrow> int \<Rightarrow> bool" where
  "compareNumbers K_numEq lv rv = (lv = rv)"
| "compareNumbers K_numNeq lv rv = (lv \<noteq> rv)"
| "compareNumbers K_numLeq lv rv = (lv \<le> rv)"
| "compareNumbers K_numLt lv rv = (lv < rv)"
| "compareNumbers K_numGeq lv rv = (lv \<ge> rv)"
| "compareNumbers K_numGt lv rv = (lv > rv)"
| "compareNumbers _ lv rv = False"

fun reflexiveKind :: "CmpKind \<Rightarrow> bool" where
  "reflexiveKind K_numEq = True"
| "reflexiveKind K_numLeq = True"
| "reflexiveKind K_numGeq = True"
| "reflexiveKind _ = False"

text \<open>\<open>checkTrivialComparison\<close> is called on the six numeric kinds only.\<close>

definition checkTrivialComparison :: "FormulaExpr \<Rightarrow> FormulaExpr \<Rightarrow> CmpKind \<Rightarrow> bool option" where
  "checkTrivialComparison left right kind =
     (case (evalExprToNumber left, evalExprToNumber right) of
        (Some lv, Some rv) \<Rightarrow> Some (compareNumbers kind lv rv)
      | _ \<Rightarrow> if formulaExprEqual left right then Some (reflexiveKind kind) else None)"

fun simplifyFormula :: "Formula \<Rightarrow> SimplifyResult" where
  "simplifyFormula F_true = \<lparr>sr_solved = True, sr_newFormula = None\<rparr>"
| "simplifyFormula F_false = \<lparr>sr_solved = False, sr_newFormula = Some F_false\<rparr>"
| "simplifyFormula (F_cmp kind l r) =
     (if isNumKind kind then
        (let left = simplifyExpr l; right = simplifyExpr r in
         case checkTrivialComparison left right kind of
           Some True \<Rightarrow> \<lparr>sr_solved = True, sr_newFormula = None\<rparr>
         | Some False \<Rightarrow> \<lparr>sr_solved = False, sr_newFormula = Some F_false\<rparr>
         | None \<Rightarrow>
             if \<not> formulaExprEqual left l \<or> \<not> formulaExprEqual right r
               then \<lparr>sr_solved = False, sr_newFormula = Some (F_cmp kind left right)\<rparr>
             else \<lparr>sr_solved = False, sr_newFormula = Some (F_cmp kind l r)\<rparr>)
      else \<lparr>sr_solved = False, sr_newFormula = Some (F_cmp kind l r)\<rparr>)"
| "simplifyFormula (F_conn K_and l r) =
     (let leftResult = simplifyFormula l; rightResult = simplifyFormula r in
      if sr_solved leftResult \<and> sr_solved rightResult then \<lparr>sr_solved = True, sr_newFormula = None\<rparr>
      else if sr_solved leftResult then
        \<lparr>sr_solved = False,
         sr_newFormula = Some (case sr_newFormula rightResult of Some f \<Rightarrow> f | None \<Rightarrow> r)\<rparr>
      else if sr_solved rightResult then
        \<lparr>sr_solved = False,
         sr_newFormula = Some (case sr_newFormula leftResult of Some f \<Rightarrow> f | None \<Rightarrow> l)\<rparr>
      else \<lparr>sr_solved = False, sr_newFormula = Some (F_conn K_and l r)\<rparr>)"
| "simplifyFormula (F_conn K_or l r) =
     (let leftResult = simplifyFormula l; rightResult = simplifyFormula r in
      if sr_solved leftResult \<or> sr_solved rightResult then \<lparr>sr_solved = True, sr_newFormula = None\<rparr>
      else \<lparr>sr_solved = False, sr_newFormula = Some (F_conn K_or l r)\<rparr>)"
| "simplifyFormula (F_conn K_implies l r) =
     (let rightResult = simplifyFormula r in
      if sr_solved rightResult then \<lparr>sr_solved = True, sr_newFormula = None\<rparr>
      else \<lparr>sr_solved = False, sr_newFormula = Some (F_conn K_implies l r)\<rparr>)"
| "simplifyFormula formula = \<lparr>sr_solved = False, sr_newFormula = Some formula\<rparr>"

subsection \<open>Function unfolding\<close>

text \<open>The bindings of \<open>matchAgainstConstructor\<close>: bound variable \<open>i\<close> is set to argument \<open>i\<close>.\<close>

fun bindFormulaArgs ::
    "string list \<Rightarrow> FormulaExpr list \<Rightarrow> (string \<times> FormulaExpr) list \<Rightarrow> (string \<times> FormulaExpr) list" where
  "bindFormulaArgs (v # vs) (a # as) bindings = bindFormulaArgs vs as (AList.update v a bindings)"
| "bindFormulaArgs _ _ bindings = bindings"

definition matchAgainstConstructor ::
    "FormulaExpr \<Rightarrow> ConstructorId \<Rightarrow> string list \<Rightarrow> (ConstructorId \<times> Constructor) list
       \<Rightarrow> (string \<times> FormulaExpr) list option" where
  "matchAgainstConstructor expr constructorId boundVars constructors =
     (case expr of
        FE_constructor exprConstructorId args \<Rightarrow>
          if exprConstructorId \<noteq> constructorId then None
          else
            (case map_of constructors constructorId of
               None \<Rightarrow> None
             | Some constructor \<Rightarrow>
                 if length args \<noteq> length boundVars then None
                 else Some (bindFormulaArgs boundVars args []))
      | _ \<Rightarrow> None)"

fun funcExprToFormulaExpr ::
    "FuncExpr \<Rightarrow> (string \<times> FormulaExpr) list \<Rightarrow> RecursiveFunc \<Rightarrow> (RecFuncId \<times> RecursiveFunc) list
       \<Rightarrow> FormulaExpr" where
  "funcExprToFormulaExpr (FX_int v) bindings func functions = FE_int v"
| "funcExprToFormulaExpr (FX_var name) bindings func functions =
     (case map_of bindings name of Some bound \<Rightarrow> bound | None \<Rightarrow> FE_var name)"
| "funcExprToFormulaExpr (FX_call funcId arg) bindings func functions =
     FE_funcApp funcId (funcExprToFormulaExpr arg bindings func functions)"
| "funcExprToFormulaExpr (FX_binop Op_add l r) bindings func functions =
     FE_add (funcExprToFormulaExpr l bindings func functions)
            (funcExprToFormulaExpr r bindings func functions)"
| "funcExprToFormulaExpr (FX_binop Op_sub l r) bindings func functions =
     FE_sub (funcExprToFormulaExpr l bindings func functions)
            (funcExprToFormulaExpr r bindings func functions)"
| "funcExprToFormulaExpr FX_empty bindings func functions = FE_emptySet"
| "funcExprToFormulaExpr _ bindings func functions = FE_int 0"

fun unfoldCases ::
    "FuncCase list \<Rightarrow> FormulaExpr \<Rightarrow> RecursiveFunc \<Rightarrow> (ConstructorId \<times> Constructor) list
       \<Rightarrow> (RecFuncId \<times> RecursiveFunc) list \<Rightarrow> FormulaExpr option" where
  "unfoldCases [] arg targetFunc constructors functions = None"
| "unfoldCases (funcCase # rest) arg targetFunc constructors functions =
     (case matchAgainstConstructor arg (fc_constructorId funcCase) (fc_boundVars funcCase) constructors of
        Some bindings \<Rightarrow> Some (funcExprToFormulaExpr (fc_body funcCase) bindings targetFunc functions)
      | None \<Rightarrow> unfoldCases rest arg targetFunc constructors functions)"

function (sequential)
  unfoldFuncApp :: "FormulaExpr \<Rightarrow> RecursiveFunc \<Rightarrow> (ConstructorId \<times> Constructor) list
      \<Rightarrow> (RecFuncId \<times> RecursiveFunc) list \<Rightarrow> FormulaExpr option"
  and unfoldFirstArg :: "FormulaExpr list \<Rightarrow> RecursiveFunc \<Rightarrow> (ConstructorId \<times> Constructor) list
      \<Rightarrow> (RecFuncId \<times> RecursiveFunc) list \<Rightarrow> FormulaExpr list option"
where
  "unfoldFuncApp (FE_funcApp funcId arg) targetFunc constructors functions =
     (if funcId = rf_id targetFunc
        then unfoldCases (rf_cases targetFunc) arg targetFunc constructors functions
      else
        (case unfoldFuncApp arg targetFunc constructors functions of
           Some argUnfold \<Rightarrow> Some (FE_funcApp funcId argUnfold)
         | None \<Rightarrow> None))"
| "unfoldFuncApp (FE_add l r) targetFunc constructors functions =
     (case unfoldFuncApp l targetFunc constructors functions of
        Some leftUnfold \<Rightarrow> Some (FE_add leftUnfold r)
      | None \<Rightarrow>
          (case unfoldFuncApp r targetFunc constructors functions of
             Some rightUnfold \<Rightarrow> Some (FE_add l rightUnfold)
           | None \<Rightarrow> None))"
| "unfoldFuncApp (FE_sub l r) targetFunc constructors functions =
     (case unfoldFuncApp l targetFunc constructors functions of
        Some leftUnfold \<Rightarrow> Some (FE_sub leftUnfold r)
      | None \<Rightarrow>
          (case unfoldFuncApp r targetFunc constructors functions of
             Some rightUnfold \<Rightarrow> Some (FE_sub l rightUnfold)
           | None \<Rightarrow> None))"
| "unfoldFuncApp (FE_constructor constructorId args) targetFunc constructors functions =
     (case unfoldFirstArg args targetFunc constructors functions of
        Some newArgs \<Rightarrow> Some (FE_constructor constructorId newArgs)
      | None \<Rightarrow> None)"
| "unfoldFuncApp _ targetFunc constructors functions = None"
| "unfoldFirstArg [] targetFunc constructors functions = None"
| "unfoldFirstArg (a # as) targetFunc constructors functions =
     (case unfoldFuncApp a targetFunc constructors functions of
        Some unfoldedArg \<Rightarrow> Some (unfoldedArg # as)
      | None \<Rightarrow>
          (case unfoldFirstArg as targetFunc constructors functions of
             Some newArgs \<Rightarrow> Some (a # newArgs)
           | None \<Rightarrow> None))"
  by pat_completeness auto
termination
  by (relation "measure (\<lambda>x. case x of Inl (e, _) \<Rightarrow> size e | Inr (es, _) \<Rightarrow> size_list size es)") auto

section \<open>Tactics and proofs\<close>

text \<open>
  \<open>uuidv4()\<close> draws a fresh random id. The model reads the ids from an arbitrary
  sequence \<open>gen\<close>, with a counter for the next position; nothing is assumed about the
  sequence, so what is proved holds for every outcome of the draws.
\<close>

type_synonym UuidGen = "nat \<Rightarrow> string"

definition uuidv4 :: "UuidGen \<Rightarrow> nat \<Rightarrow> string \<times> nat" where
  "uuidv4 gen n = (gen n, Suc n)"

text \<open>The decimal digits of a number, as a template string renders it.\<close>

definition digitChar :: "nat \<Rightarrow> char" where
  "digitChar d = char_of (48 + d)"

function natToString :: "nat \<Rightarrow> string" where
  "natToString n = (if n < 10 then [digitChar n] else natToString (n div 10) @ [digitChar (n mod 10)])"
  by pat_completeness auto
termination
  by (relation "measure id") auto

declare natToString.simps [simp del]

datatype Direction = Ltr | Rtl

datatype Side = SideLeft | SideRight

datatype Tactic =
    T_intro "string option"
  | T_intro_hyp "string option"
  | T_exists_witness FormulaExpr
  | T_split
  | T_left
  | T_right
  | T_induction string
  | T_derivation_induction string
  | T_apply string
  | T_apply_rule RuleId
  | T_reflexivity
  | T_contradiction
  | T_compute
  | T_case_analysis string
  | T_discriminate string
  | T_rewrite string "Direction option"
  | T_unfold RecFuncId Side
  | T_simplify
  | T_trivial
  | T_exact string

text \<open>
  The error of a failed tactic is a message string in the source. Each message is one
  constructor here, with the names the message quotes as arguments.
\<close>

datatype TacticError =
    IntroRequiresForall
  | VariableAlreadyInContext string
  | IntroHypRequiresImplies
  | HypothesisAlreadyInContext string
  | ExistsWitnessRequiresExists
  | SplitRequiresAnd
  | LeftRequiresOr
  | RightRequiresOr
  | VariableNotInContext string
  | InductionNotInductive string
  | NoConstructorsForSort
  | ReflexivityRequiresComparison
  | TermsNotEqual
  | GoalNotTrivial
  | HypothesisNotFound string
  | HypothesisDoesNotMatch string
  | CaseAnalysisNotInductive string
  | HypothesisNotEquality string
  | CannotDiscriminate
  | ForallApplicationUnsupported
  | CannotApply string
  | FunctionNotFound
  | UnfoldRequiresComparison
  | CouldNotUnfold string
  | CannotSimplify
  | TacticNotImplemented
  | GoalNotFound
  | GoalAlreadyProved

text \<open>A successful result also carries a message for display; it is left out.\<close>

datatype TacticResult = Success "ProofGoal list" | Failure TacticError

subsection \<open>The tactic interpreter\<close>

definition newGoal :: "GoalId \<Rightarrow> ProofContext \<Rightarrow> Formula \<Rightarrow> ProofGoal" where
  "newGoal gid context formula = \<lparr>g_id = gid, g_context = context, g_goal = formula\<rparr>"

definition applyIntro ::
    "UuidGen \<Rightarrow> nat \<Rightarrow> ProofGoal \<Rightarrow> string option \<Rightarrow> TacticResult \<times> nat" where
  "applyIntro gen n goal tacticVarName =
     (case g_goal goal of
        F_quant K_forall boundName sortId body \<Rightarrow>
          (let varName = (if truthy tacticVarName then the tacticVarName else boundName) in
           if list_ex (\<lambda>v. v_name v = varName) (ctx_variables (g_context goal))
             then (Failure (VariableAlreadyInContext varName), n)
           else
             (let (gid, n1) = uuidv4 gen n in
              (Success
                 [newGoal gid
                    \<lparr>ctx_variables = ctx_variables (g_context goal) @ [\<lparr>v_name = varName, v_sortId = sortId\<rparr>],
                     ctx_hypotheses = ctx_hypotheses (g_context goal)\<rparr>
                    (if varName = boundName then body
                     else substituteFormula body boundName (FE_var varName))],
               n1)))
      | _ \<Rightarrow> (Failure IntroRequiresForall, n))"

definition applyIntroHyp ::
    "UuidGen \<Rightarrow> nat \<Rightarrow> ProofGoal \<Rightarrow> string option \<Rightarrow> TacticResult \<times> nat" where
  "applyIntroHyp gen n goal tacticHypName =
     (case g_goal goal of
        F_conn K_implies l r \<Rightarrow>
          (let hypName = (if truthy tacticHypName then the tacticHypName
                          else ''H'' @ natToString (length (ctx_hypotheses (g_context goal)))) in
           if list_ex (\<lambda>h. h_name h = hypName) (ctx_hypotheses (g_context goal))
             then (Failure (HypothesisAlreadyInContext hypName), n)
           else
             (let (gid, n1) = uuidv4 gen n; (hid, n2) = uuidv4 gen n1 in
              (Success
                 [newGoal gid
                    \<lparr>ctx_variables = ctx_variables (g_context goal),
                     ctx_hypotheses = ctx_hypotheses (g_context goal)
                        @ [\<lparr>h_id = hid, h_name = hypName, h_formula = l\<rparr>]\<rparr>
                    r],
               n2)))
      | _ \<Rightarrow> (Failure IntroHypRequiresImplies, n))"

definition applyExistsWitness ::
    "UuidGen \<Rightarrow> nat \<Rightarrow> ProofGoal \<Rightarrow> FormulaExpr \<Rightarrow> TacticResult \<times> nat" where
  "applyExistsWitness gen n goal witness =
     (case g_goal goal of
        F_quant K_exists boundName sortId body \<Rightarrow>
          (let (gid, n1) = uuidv4 gen n in
           (Success [newGoal gid (g_context goal) (substituteFormula body boundName witness)], n1))
      | _ \<Rightarrow> (Failure ExistsWitnessRequiresExists, n))"

definition applySplit :: "UuidGen \<Rightarrow> nat \<Rightarrow> ProofGoal \<Rightarrow> TacticResult \<times> nat" where
  "applySplit gen n goal =
     (case g_goal goal of
        F_conn K_and l r \<Rightarrow>
          (let (leftId, n1) = uuidv4 gen n; (rightId, n2) = uuidv4 gen n1 in
           (Success [newGoal leftId (g_context goal) l, newGoal rightId (g_context goal) r], n2))
      | _ \<Rightarrow> (Failure SplitRequiresAnd, n))"

definition applyLeft :: "UuidGen \<Rightarrow> nat \<Rightarrow> ProofGoal \<Rightarrow> TacticResult \<times> nat" where
  "applyLeft gen n goal =
     (case g_goal goal of
        F_conn K_or l r \<Rightarrow>
          (let (gid, n1) = uuidv4 gen n in (Success [newGoal gid (g_context goal) l], n1))
      | _ \<Rightarrow> (Failure LeftRequiresOr, n))"

definition applyRight :: "UuidGen \<Rightarrow> nat \<Rightarrow> ProofGoal \<Rightarrow> TacticResult \<times> nat" where
  "applyRight gen n goal =
     (case g_goal goal of
        F_conn K_or l r \<Rightarrow>
          (let (gid, n1) = uuidv4 gen n in (Success [newGoal gid (g_context goal) r], n1))
      | _ \<Rightarrow> (Failure RightRequiresOr, n))"

text \<open>
  The fresh variables of a constructor: argument \<open>i\<close> is named by its label, or \<open>x\<close>
  followed by \<open>i\<close> when it has none.
\<close>

fun freshVarsFrom :: "nat \<Rightarrow> ConstructorArg list \<Rightarrow> ProofVariable list" where
  "freshVarsFrom i [] = []"
| "freshVarsFrom i (arg # args) =
     \<lparr>v_name = (if truthy (ca_label arg) then the (ca_label arg) else ''x'' @ natToString i),
      v_sortId = ca_sortId arg\<rparr> # freshVarsFrom (Suc i) args"

definition freshVars :: "Constructor \<Rightarrow> ProofVariable list" where
  "freshVars c = freshVarsFrom 0 (c_args c)"

definition constructorExpr :: "Constructor \<Rightarrow> FormulaExpr" where
  "constructorExpr c = FE_constructor (c_id c) (map (\<lambda>v. FE_var (v_name v)) (freshVars c))"

text \<open>
  The induction hypotheses of one constructor: one for each argument of the sort of the
  induction variable, each with a fresh id. The two lists run in step.
\<close>

fun inductionHypotheses ::
    "UuidGen \<Rightarrow> nat \<Rightarrow> ConstructorArg list \<Rightarrow> ProofVariable list \<Rightarrow> SortId \<Rightarrow> Formula \<Rightarrow> string
       \<Rightarrow> ProofHypothesis list \<times> nat" where
  "inductionHypotheses gen n (arg # args) (fv # fvs) sortId formula varName =
     (if ca_sortId arg = sortId then
        (let (hid, n1) = uuidv4 gen n;
             (rest, n2) = inductionHypotheses gen n1 args fvs sortId formula varName in
         (\<lparr>h_id = hid, h_name = ''IH_'' @ v_name fv,
           h_formula = substituteFormula formula varName (FE_var (v_name fv))\<rparr> # rest, n2))
      else inductionHypotheses gen n args fvs sortId formula varName)"
| "inductionHypotheses gen n _ _ sortId formula varName = ([], n)"

definition inductionGoal ::
    "UuidGen \<Rightarrow> nat \<Rightarrow> ProofGoal \<Rightarrow> string \<Rightarrow> SortId \<Rightarrow> Constructor \<Rightarrow> ProofGoal \<times> nat" where
  "inductionGoal gen n goal varName sortId c =
     (let substitutedGoal = substituteFormula (g_goal goal) varName (constructorExpr c);
          (hyps, n1) = inductionHypotheses gen n (c_args c) (freshVars c) sortId (g_goal goal) varName;
          newVars = filter (\<lambda>v. v_name v \<noteq> varName) (ctx_variables (g_context goal)) @ freshVars c;
          (gid, n2) = uuidv4 gen n1 in
      (newGoal gid
         \<lparr>ctx_variables = newVars, ctx_hypotheses = ctx_hypotheses (g_context goal) @ hyps\<rparr>
         substitutedGoal,
       n2))"

fun inductionGoals ::
    "UuidGen \<Rightarrow> nat \<Rightarrow> ProofGoal \<Rightarrow> string \<Rightarrow> SortId \<Rightarrow> Constructor list \<Rightarrow> ProofGoal list \<times> nat" where
  "inductionGoals gen n goal varName sortId [] = ([], n)"
| "inductionGoals gen n goal varName sortId (c # cs) =
     (let (g, n1) = inductionGoal gen n goal varName sortId c;
          (gs, n2) = inductionGoals gen n1 goal varName sortId cs in
      (g # gs, n2))"

definition applyInduction ::
    "UuidGen \<Rightarrow> nat \<Rightarrow> ProofGoal \<Rightarrow> string \<Rightarrow> (ConstructorId \<times> Constructor) list
       \<Rightarrow> (SortId \<times> Sort) list \<Rightarrow> TacticResult \<times> nat" where
  "applyInduction gen n goal varName constructors sorts =
     (case find (\<lambda>v. v_name v = varName) (ctx_variables (g_context goal)) of
        None \<Rightarrow> (Failure (VariableNotInContext varName), n)
      | Some varInfo \<Rightarrow>
          (case map_of sorts (v_sortId varInfo) of
             None \<Rightarrow> (Failure (InductionNotInductive varName), n)
           | Some sortInfo \<Rightarrow>
               if sort_kind sortInfo \<noteq> Inductive then (Failure (InductionNotInductive varName), n)
               else
                 (let sortConstructors =
                        filter (\<lambda>c. c_sortId c = v_sortId varInfo) (map snd constructors) in
                  if length sortConstructors = 0 then (Failure NoConstructorsForSort, n)
                  else
                    (let (newGoals, n1) =
                           inductionGoals gen n goal varName (v_sortId varInfo) sortConstructors in
                     (Success newGoals, n1)))))"

definition caseGoal ::
    "UuidGen \<Rightarrow> nat \<Rightarrow> ProofGoal \<Rightarrow> string \<Rightarrow> Constructor \<Rightarrow> ProofGoal \<times> nat" where
  "caseGoal gen n goal varName c =
     (let substitutedGoal = substituteFormula (g_goal goal) varName (constructorExpr c);
          newVars = filter (\<lambda>v. v_name v \<noteq> varName) (ctx_variables (g_context goal)) @ freshVars c;
          (gid, n1) = uuidv4 gen n in
      (newGoal gid
         \<lparr>ctx_variables = newVars, ctx_hypotheses = ctx_hypotheses (g_context goal)\<rparr>
         substitutedGoal,
       n1))"

fun caseGoals ::
    "UuidGen \<Rightarrow> nat \<Rightarrow> ProofGoal \<Rightarrow> string \<Rightarrow> Constructor list \<Rightarrow> ProofGoal list \<times> nat" where
  "caseGoals gen n goal varName [] = ([], n)"
| "caseGoals gen n goal varName (c # cs) =
     (let (g, n1) = caseGoal gen n goal varName c;
          (gs, n2) = caseGoals gen n1 goal varName cs in
      (g # gs, n2))"

definition applyCaseAnalysis ::
    "UuidGen \<Rightarrow> nat \<Rightarrow> ProofGoal \<Rightarrow> string \<Rightarrow> (ConstructorId \<times> Constructor) list
       \<Rightarrow> (SortId \<times> Sort) list \<Rightarrow> TacticResult \<times> nat" where
  "applyCaseAnalysis gen n goal varName constructors sorts =
     (case find (\<lambda>v. v_name v = varName) (ctx_variables (g_context goal)) of
        None \<Rightarrow> (Failure (VariableNotInContext varName), n)
      | Some varInfo \<Rightarrow>
          (case map_of sorts (v_sortId varInfo) of
             None \<Rightarrow> (Failure (CaseAnalysisNotInductive varName), n)
           | Some sortInfo \<Rightarrow>
               if sort_kind sortInfo \<noteq> Inductive then (Failure (CaseAnalysisNotInductive varName), n)
               else
                 (let sortConstructors =
                        filter (\<lambda>c. c_sortId c = v_sortId varInfo) (map snd constructors);
                      (newGoals, n1) = caseGoals gen n goal varName sortConstructors in
                  (Success newGoals, n1))))"

definition applyReflexivity :: "ProofGoal \<Rightarrow> TacticResult" where
  "applyReflexivity goal =
     (case g_goal goal of
        F_cmp kind l r \<Rightarrow>
          if kind = K_termEq \<or> kind = K_numEq \<or> kind = K_numLeq \<or> kind = K_numGeq then
            (if \<not> formulaExprEqual l r then
               (if formulaExprEqual (simplifyExpr l) (simplifyExpr r) then Success []
                else Failure TermsNotEqual)
             else Success [])
          else Failure ReflexivityRequiresComparison
      | _ \<Rightarrow> Failure ReflexivityRequiresComparison)"

definition applyTrivial :: "ProofGoal \<Rightarrow> TacticResult" where
  "applyTrivial goal =
     (if g_goal goal = F_true then Success []
      else
        (case find (\<lambda>h. formulaEqual (h_formula h) (g_goal goal)) (ctx_hypotheses (g_context goal)) of
           Some matching \<Rightarrow> Success []
         | None \<Rightarrow> Failure GoalNotTrivial))"

definition applyExact :: "ProofGoal \<Rightarrow> string \<Rightarrow> TacticResult" where
  "applyExact goal hypName =
     (case find (\<lambda>h. h_name h = hypName) (ctx_hypotheses (g_context goal)) of
        None \<Rightarrow> Failure (HypothesisNotFound hypName)
      | Some hyp \<Rightarrow>
          if \<not> formulaEqual (h_formula hyp) (g_goal goal) then Failure (HypothesisDoesNotMatch hypName)
          else Success [])"

definition applyDiscriminate :: "ProofGoal \<Rightarrow> string \<Rightarrow> TacticResult" where
  "applyDiscriminate goal hypName =
     (case find (\<lambda>h. h_name h = hypName) (ctx_hypotheses (g_context goal)) of
        None \<Rightarrow> Failure (HypothesisNotFound hypName)
      | Some hyp \<Rightarrow>
          (case h_formula hyp of
             F_cmp K_termEq l r \<Rightarrow>
               (case (l, r) of
                  (FE_constructor c1 args1, FE_constructor c2 args2) \<Rightarrow>
                    if c1 \<noteq> c2 then Success [] else Failure CannotDiscriminate
                | _ \<Rightarrow> Failure CannotDiscriminate)
           | _ \<Rightarrow> Failure (HypothesisNotEquality hypName)))"

definition applyApply :: "UuidGen \<Rightarrow> nat \<Rightarrow> ProofGoal \<Rightarrow> string \<Rightarrow> TacticResult \<times> nat" where
  "applyApply gen n goal hypName =
     (case find (\<lambda>h. h_name h = hypName) (ctx_hypotheses (g_context goal)) of
        None \<Rightarrow> (Failure (HypothesisNotFound hypName), n)
      | Some hyp \<Rightarrow>
          (case h_formula hyp of
             F_conn K_implies l r \<Rightarrow>
               if formulaEqual r (g_goal goal) then
                 (let (gid, n1) = uuidv4 gen n in (Success [newGoal gid (g_context goal) l], n1))
               else (Failure (CannotApply hypName), n)
           | F_quant K_forall boundName sortId body \<Rightarrow> (Failure ForallApplicationUnsupported, n)
           | _ \<Rightarrow> (Failure (CannotApply hypName), n)))"

definition applyUnfold ::
    "UuidGen \<Rightarrow> nat \<Rightarrow> ProofGoal \<Rightarrow> RecFuncId \<Rightarrow> Side \<Rightarrow> (ConstructorId \<times> Constructor) list
       \<Rightarrow> (RecFuncId \<times> RecursiveFunc) list \<Rightarrow> TacticResult \<times> nat" where
  "applyUnfold gen n goal funcId side constructors functions =
     (case map_of functions funcId of
        None \<Rightarrow> (Failure FunctionNotFound, n)
      | Some func \<Rightarrow>
          (case g_goal goal of
             F_cmp kind l r \<Rightarrow>
               (case unfoldFuncApp (if side = SideLeft then l else r) func constructors functions of
                  None \<Rightarrow> (Failure (CouldNotUnfold (rf_name func)), n)
                | Some unfoldedExpr \<Rightarrow>
                    (let newFormula = (if side = SideLeft then F_cmp kind unfoldedExpr r
                                       else F_cmp kind l unfoldedExpr);
                         (gid, n1) = uuidv4 gen n in
                     (Success [newGoal gid (g_context goal) newFormula], n1)))
           | _ \<Rightarrow> (Failure UnfoldRequiresComparison, n)))"

definition applySimplify :: "UuidGen \<Rightarrow> nat \<Rightarrow> ProofGoal \<Rightarrow> TacticResult \<times> nat" where
  "applySimplify gen n goal =
     (if sr_solved (tryLinearArithmetic (g_goal goal) (ctx_hypotheses (g_context goal)))
        then (Success [], n)
      else
        (let simplified = simplifyFormula (g_goal goal) in
         if sr_solved simplified then (Success [], n)
         else
           (case sr_newFormula simplified of
              Some newFormula \<Rightarrow>
                if \<not> formulaEqual newFormula (g_goal goal) then
                  (let (gid, n1) = uuidv4 gen n in
                   (Success [newGoal gid (g_context goal) newFormula], n1))
                else (Failure CannotSimplify, n)
            | None \<Rightarrow> (Failure CannotSimplify, n))))"

definition applyTactic ::
    "UuidGen \<Rightarrow> nat \<Rightarrow> ProofGoal \<Rightarrow> Tactic \<Rightarrow> (ConstructorId \<times> Constructor) list
       \<Rightarrow> (SortId \<times> Sort) list \<Rightarrow> (RecFuncId \<times> RecursiveFunc) list
       \<Rightarrow> (RuleId \<times> InferenceRule) list \<Rightarrow> TacticResult \<times> nat" where
  "applyTactic gen n goal tactic constructors sorts functions rules =
     (case tactic of
        T_intro tacticVarName \<Rightarrow> applyIntro gen n goal tacticVarName
      | T_intro_hyp tacticHypName \<Rightarrow> applyIntroHyp gen n goal tacticHypName
      | T_exists_witness witness \<Rightarrow> applyExistsWitness gen n goal witness
      | T_split \<Rightarrow> applySplit gen n goal
      | T_left \<Rightarrow> applyLeft gen n goal
      | T_right \<Rightarrow> applyRight gen n goal
      | T_induction varName \<Rightarrow> applyInduction gen n goal varName constructors sorts
      | T_reflexivity \<Rightarrow> (applyReflexivity goal, n)
      | T_trivial \<Rightarrow> (applyTrivial goal, n)
      | T_exact hypName \<Rightarrow> (applyExact goal hypName, n)
      | T_case_analysis varName \<Rightarrow> applyCaseAnalysis gen n goal varName constructors sorts
      | T_discriminate hypName \<Rightarrow> (applyDiscriminate goal hypName, n)
      | T_apply hypName \<Rightarrow> applyApply gen n goal hypName
      | T_unfold funcId side \<Rightarrow> applyUnfold gen n goal funcId side constructors functions
      | T_simplify \<Rightarrow> applySimplify gen n goal
      | _ \<Rightarrow> (Failure TacticNotImplemented, n))"

subsection \<open>Proof states\<close>

record ProofStep =
  st_goalId :: GoalId
  st_tactic :: Tactic
  st_resultingGoals :: "GoalId list"

datatype ProofStatus = Incomplete | Complete | Invalid

record Property =
  p_id :: PropertyId
  p_name :: string
  p_formula :: Formula
  p_description :: "string option"

record Proof =
  pr_id :: ProofId
  pr_propertyId :: PropertyId
  pr_goals :: "(GoalId \<times> ProofGoal) list"
  pr_steps :: "ProofStep list"
  pr_rootGoalId :: GoalId
  pr_openGoals :: "GoalId list"
  pr_status :: ProofStatus

definition createProof :: "UuidGen \<Rightarrow> nat \<Rightarrow> Property \<Rightarrow> Proof \<times> nat" where
  "createProof gen n property =
     (let (rootId, n1) = uuidv4 gen n;
          rootGoal = \<lparr>g_id = rootId,
                      g_context = \<lparr>ctx_variables = [], ctx_hypotheses = []\<rparr>,
                      g_goal = p_formula property\<rparr>;
          (proofId, n2) = uuidv4 gen n1 in
      (\<lparr>pr_id = proofId, pr_propertyId = p_id property,
        pr_goals = [(g_id rootGoal, rootGoal)],
        pr_steps = [],
        pr_rootGoalId = g_id rootGoal,
        pr_openGoals = [g_id rootGoal],
        pr_status = Incomplete\<rparr>, n2))"

text \<open>The loop that enters the new goals into the copy of the goals map.\<close>

fun addGoals :: "ProofGoal list \<Rightarrow> (GoalId \<times> ProofGoal) list \<Rightarrow> (GoalId \<times> ProofGoal) list" where
  "addGoals [] newGoalsMap = newGoalsMap"
| "addGoals (g # gs) newGoalsMap = addGoals gs (AList.update (g_id g) g newGoalsMap)"

definition applyTacticToProof ::
    "UuidGen \<Rightarrow> nat \<Rightarrow> Proof \<Rightarrow> GoalId \<Rightarrow> Tactic \<Rightarrow> (ConstructorId \<times> Constructor) list
       \<Rightarrow> (SortId \<times> Sort) list \<Rightarrow> (RecFuncId \<times> RecursiveFunc) list
       \<Rightarrow> (RuleId \<times> InferenceRule) list \<Rightarrow> (Proof \<times> TacticResult) \<times> nat" where
  "applyTacticToProof gen n proof goalId tactic constructors sorts functions rules =
     (case map_of (pr_goals proof) goalId of
        None \<Rightarrow> ((proof, Failure GoalNotFound), n)
      | Some goal \<Rightarrow>
          if goalId \<notin> set (pr_openGoals proof) then ((proof, Failure GoalAlreadyProved), n)
          else
            (case applyTactic gen n goal tactic constructors sorts functions rules of
               (Failure error, n1) \<Rightarrow> ((proof, Failure error), n1)
             | (Success newGoals, n1) \<Rightarrow>
                 (let newGoalsMap = addGoals newGoals (pr_goals proof);
                      newOpenGoals = filter (\<lambda>gid. gid \<noteq> goalId) (pr_openGoals proof) @ map g_id newGoals;
                      step = \<lparr>st_goalId = goalId, st_tactic = tactic,
                              st_resultingGoals = map g_id newGoals\<rparr> in
                  ((proof\<lparr>pr_goals := newGoalsMap,
                          pr_steps := pr_steps proof @ [step],
                          pr_openGoals := newOpenGoals,
                          pr_status := (if length newOpenGoals = 0 then Complete else Incomplete)\<rparr>,
                    Success newGoals), n1))))"

subsection \<open>Sequences of tactic applications\<close>

text \<open>
  One call of \<open>applyTacticToProof\<close> by the store: the goal, the tactic and the
  registries of the store at the time of the call. \<open>applyCalls\<close> runs a list of calls
  from a proof, each on the proof returned by the one before.
\<close>

record TacticCall =
  tc_goalId :: GoalId
  tc_tactic :: Tactic
  tc_constructors :: "(ConstructorId \<times> Constructor) list"
  tc_sorts :: "(SortId \<times> Sort) list"
  tc_functions :: "(RecFuncId \<times> RecursiveFunc) list"
  tc_rules :: "(RuleId \<times> InferenceRule) list"

fun applyCalls :: "UuidGen \<Rightarrow> nat \<Rightarrow> Proof \<Rightarrow> TacticCall list \<Rightarrow> Proof \<times> nat" where
  "applyCalls gen n proof [] = (proof, n)"
| "applyCalls gen n proof (c # cs) =
     (case applyTacticToProof gen n proof (tc_goalId c) (tc_tactic c)
             (tc_constructors c) (tc_sorts c) (tc_functions c) (tc_rules c) of
        ((proof', result), n') \<Rightarrow> applyCalls gen n' proof' cs)"

text \<open>The invariants of a proof state.\<close>

definition proofInvariant :: "Proof \<Rightarrow> bool" where
  "proofInvariant P =
     (set (pr_openGoals P) \<subseteq> fst ` set (pr_goals P)
      \<and> pr_rootGoalId P \<in> fst ` set (pr_goals P)
      \<and> (pr_status P = Complete \<longleftrightarrow> pr_openGoals P = []))"


text \<open>
  The variables that \<open>induction\<close> on \<open>x\<close> introduces for constructor \<open>c\<close> are fresh in
  \<open>goal\<close>: their names differ from one another and from the names of the variables
  that stay in the context.
\<close>

definition freshNamesFor :: "ProofGoal \<Rightarrow> string \<Rightarrow> Constructor \<Rightarrow> bool" where
  "freshNamesFor goal x c =
     (distinct (map v_name (freshVars c))
      \<and> list_all (\<lambda>fv. \<not> list_ex (\<lambda>v. v_name v = v_name fv)
                              (filter (\<lambda>v. v_name v \<noteq> x) (ctx_variables (g_context goal))))
           (freshVars c))"

subsection \<open>Example goals\<close>

text \<open>
  A sequence of ids, the sort of the Peano numerals, an inductive sort \<open>E\<close> without
  constructors, and two goals with one variable in the context: \<open>size(n) \<ge> 0\<close> for
  \<open>n\<close> of sort \<open>N\<close>, as after \<open>intro\<close> on the property of the specification's third
  scenario, and \<open>\<top>\<close> for \<open>e\<close> of sort \<open>E\<close>.
\<close>

definition exampleGen :: UuidGen where
  "exampleGen n = ''id'' @ natToString n"

definition exampleSorts :: "(SortId \<times> Sort) list" where
  "exampleSorts =
     [(''N'', \<lparr>sort_id = ''N'', sort_name = ''Nat'', sort_description = None,
               sort_kind = Inductive, sort_isBinderSort = False, sort_color = ''blue'',
               sort_atomPrefix = None\<rparr>),
      (''E'', \<lparr>sort_id = ''E'', sort_name = ''Empty'', sort_description = None,
               sort_kind = Inductive, sort_isBinderSort = False, sort_color = ''grey'',
               sort_atomPrefix = None\<rparr>)]"



definition truthProperty :: Property where
  "truthProperty = \<lparr>p_id = ''p1'', p_name = ''truth'', p_formula = F_true, p_description = None\<rparr>"

definition conjProperty :: Property where
  "conjProperty =
     \<lparr>p_id = ''p2'', p_name = ''both'', p_formula = F_conn K_and F_true F_false,
      p_description = None\<rparr>"

text \<open>
  A goal \<open>k = S(n)\<close> with the variables \<open>n\<close> and \<open>k\<close> of sort \<open>N\<close> in the context; the
  argument of \<open>S\<close> is labelled \<open>n\<close>.
\<close>

definition clashGoal :: ProofGoal where
  "clashGoal =
     \<lparr>g_id = ''g0'',
      g_context = \<lparr>ctx_variables = [\<lparr>v_name = ''n'', v_sortId = ''N''\<rparr>,
                                     \<lparr>v_name = ''k'', v_sortId = ''N''\<rparr>],
                   ctx_hypotheses = []\<rparr>,
      g_goal = F_cmp K_termEq (FE_var ''k'') (FE_constructor ''cS'' [FE_var ''n''])\<rparr>"

section \<open>The store and its deletion cascades\<close>

record StoreState =
  sorts :: "(SortId \<times> Sort) list"
  constructors :: "(ConstructorId \<times> Constructor) list"
  judgments :: "(JudgmentId \<times> Judgment) list"
  rules :: "(RuleId \<times> InferenceRule) list"
  metaVariables :: "(string \<times> MetaVariable) list"
  recursiveFunctions :: "(RecFuncId \<times> RecursiveFunc) list"
  properties :: "(PropertyId \<times> Property) list"
  proofs :: "(ProofId \<times> Proof) list"
  selectedSortId :: "SortId option"
  selectedJudgmentId :: "JudgmentId option"
  selectedRuleId :: "RuleId option"
  selectedFuncId :: "RecFuncId option"
  selectedPropertyId :: "PropertyId option"
  selectedProofId :: "ProofId option"
  selectedGoalId :: "GoalId option"

text \<open>
  Each cascade is a loop over the entries of the copied map that deletes (or rewrites)
  entries of that same map while it runs. The loop visits the entries the map had
  when the loop started, in order.
\<close>

definition deleteSortStep ::
    "SortId \<Rightarrow> (ConstructorId \<times> Constructor) list \<Rightarrow> ConstructorId \<times> Constructor
       \<Rightarrow> (ConstructorId \<times> Constructor) list" where
  "deleteSortStep sid newConstructors entry =
     (case entry of (cid, c) \<Rightarrow>
        if c_sortId c = sid then AList.delete cid newConstructors else newConstructors)"

definition deleteSort :: "SortId \<Rightarrow> StoreState \<Rightarrow> StoreState" where
  "deleteSort sid state =
     state\<lparr>sorts := AList.delete sid (sorts state),
           constructors := foldl (deleteSortStep sid) (constructors state) (constructors state),
           selectedSortId := (if selectedSortId state = Some sid then None else selectedSortId state)\<rparr>"

definition deleteJudgmentStep ::
    "JudgmentId \<Rightarrow> (RuleId \<times> InferenceRule) list \<Rightarrow> RuleId \<times> InferenceRule
       \<Rightarrow> (RuleId \<times> InferenceRule) list" where
  "deleteJudgmentStep jid newRules entry =
     (case entry of (rid, r) \<Rightarrow>
        if ji_judgmentId (r_conclusion r) = jid then AList.delete rid newRules
        else
          (let filteredPremises = filter (\<lambda>p. ji_judgmentId p \<noteq> jid) (r_premises r) in
           if length filteredPremises \<noteq> length (r_premises r)
             then AList.update rid (r\<lparr>r_premises := filteredPremises\<rparr>) newRules
           else newRules))"

definition deleteJudgment :: "JudgmentId \<Rightarrow> StoreState \<Rightarrow> StoreState" where
  "deleteJudgment jid state =
     state\<lparr>judgments := AList.delete jid (judgments state),
           rules := foldl (deleteJudgmentStep jid) (rules state) (rules state),
           selectedJudgmentId :=
             (if selectedJudgmentId state = Some jid then None else selectedJudgmentId state)\<rparr>"

definition deletePropertyStep ::
    "PropertyId \<Rightarrow> (ProofId \<times> Proof) list \<Rightarrow> ProofId \<times> Proof \<Rightarrow> (ProofId \<times> Proof) list" where
  "deletePropertyStep pid newProofs entry =
     (case entry of (proofId, p) \<Rightarrow>
        if pr_propertyId p = pid then AList.delete proofId newProofs else newProofs)"

definition deleteProperty :: "PropertyId \<Rightarrow> StoreState \<Rightarrow> StoreState" where
  "deleteProperty pid state =
     state\<lparr>properties := AList.delete pid (properties state),
           proofs := foldl (deletePropertyStep pid) (proofs state) (proofs state),
           selectedPropertyId :=
             (if selectedPropertyId state = Some pid then None else selectedPropertyId state)\<rparr>"

text \<open>A rule without its premises on a given judgment.\<close>

definition withoutPremisesOf :: "JudgmentId \<Rightarrow> InferenceRule \<Rightarrow> InferenceRule" where
  "withoutPremisesOf jid r = r\<lparr>r_premises := filter (\<lambda>p. ji_judgmentId p \<noteq> jid) (r_premises r)\<rparr>"

subsection \<open>A small store\<close>

text \<open>
  The Peano example with its two judgments and three rules, one property and one proof
  of it.
\<close>

definition exampleStore :: StoreState where
  "exampleStore =
     \<lparr>sorts = [(''N'', \<lparr>sort_id = ''N'', sort_name = ''Nat'', sort_description = None,
                        sort_kind = Inductive, sort_isBinderSort = False, sort_color = ''blue'',
                        sort_atomPrefix = None\<rparr>)],
      constructors = peanoConstructors,
      judgments =
        [(''even'', \<lparr>j_id = ''even'', j_name = ''even'', j_symbol = ''even'',
                     j_separators = [[], ''even''], j_argSorts = [(''N'', ''n'')], j_color = ''green''\<rparr>),
         (''odd'', \<lparr>j_id = ''odd'', j_name = ''odd'', j_symbol = ''odd'',
                    j_separators = [[], ''odd''], j_argSorts = [(''N'', ''n'')], j_color = ''red''\<rparr>)],
      rules = peanoRules,
      metaVariables = [(''mvN'', \<lparr>mv_id = ''mvN'', mv_name = ''n'', mv_sortId = ''N''\<rparr>)],
      recursiveFunctions = [],
      properties = [(''p1'', \<lparr>p_id = ''p1'', p_name = ''truth'', p_formula = F_true, p_description = None\<rparr>)],
      proofs =
        [(''pf1'', \<lparr>pr_id = ''pf1'', pr_propertyId = ''p1'',
                    pr_goals = [(''g1'', \<lparr>g_id = ''g1'',
                                          g_context = \<lparr>ctx_variables = [], ctx_hypotheses = []\<rparr>,
                                          g_goal = F_true\<rparr>)],
                    pr_steps = [], pr_rootGoalId = ''g1'', pr_openGoals = [''g1''],
                    pr_status = Incomplete\<rparr>)],
      selectedSortId = Some ''N'', selectedJudgmentId = Some ''even'', selectedRuleId = None,
      selectedFuncId = None, selectedPropertyId = None, selectedProofId = None,
      selectedGoalId = None\<rparr>"

section \<open>Pattern engine: matching after substitution\<close>

lemma termsEqualArgs_refl: "(\<And>a. a \<in> set ts \<Longrightarrow> termsEqual a a) \<Longrightarrow> termsEqualArgs ts ts"
  by (induction ts) auto

lemma termsEqual_refl: "termsEqual t t"
  by (induction t) (auto intro: termsEqualArgs_refl)

lemma set_update_subset: "set (AList.update k v al) \<subseteq> insert (k, v) (set al)"
  by (induction al) auto

lemma keys_update: "fst ` set (AList.update k v al) = insert k (fst ` set al)"
  by (induction al) auto

lemma agrees_update: "agrees b al \<Longrightarrow> map_of b k = Some v \<Longrightarrow> agrees b (AList.update k v al)"
  using set_update_subset[of k v al] by (fastforce simp: agrees_def)

lemma agrees_map_of: "agrees b al \<Longrightarrow> map_of al k = Some v \<Longrightarrow> map_of b k = Some v"
  by (auto simp: agrees_def dest: map_of_SomeD)

lemma mergeBindings_agrees:
  "agrees b al \<Longrightarrow> agrees b ab \<Longrightarrow>
   \<exists>r. mergeBindings al ab = Some r \<and> agrees b r \<and> fst ` set r = fst ` set al \<union> fst ` set ab"
proof (induction ab arbitrary: al)
  case Nil
  then show ?case by simp
next
  case (Cons kv ab)
  obtain k v where kv: "kv = (k, v)" by (cases kv)
  from Cons.prems(2) kv have bk: "map_of b k = Some v" and ab: "agrees b ab"
    by (auto simp: agrees_def)
  have upd: "agrees b (AList.update k v al)" using Cons.prems(1) bk by (rule agrees_update)
  from Cons.IH[OF upd ab] obtain r where
    r: "mergeBindings (AList.update k v al) ab = Some r" "agrees b r"
       "fst ` set r = fst ` set (AList.update k v al) \<union> fst ` set ab" by blast
  have same: "map_of al k = Some e \<Longrightarrow> termsEqual e v" for e
    using agrees_map_of[OF Cons.prems(1)] bk termsEqual_refl by fastforce
  show ?case using r same by (auto simp: kv keys_update split: option.splits)
qed

lemma agrees_restrict: "agrees b r \<Longrightarrow> map_of r = map_of b |` (fst ` set r)"
proof (rule ext)
  fix k assume a: "agrees b r"
  show "map_of r k = (map_of b |` (fst ` set r)) k"
  proof (cases "map_of r k")
    case None
    then show ?thesis by (simp add: restrict_map_def map_of_eq_None_iff)
  next
    case (Some v)
    then have "k \<in> fst ` set r" by (force dest: map_of_SomeD)
    then show ?thesis using agrees_map_of[OF a Some] Some by (simp add: restrict_map_def)
  qed
qed

lemma match_subst_aux:
  "substitutePattern p b = Some t \<Longrightarrow>
     \<exists>r. matchPattern t p = Some r \<and> agrees b r \<and> fst ` set r = metaVarsOf p"
  "substitutePatternArgs ps b = Some ts \<Longrightarrow> agrees b al \<Longrightarrow>
     \<exists>r. matchPatternArgs ts ps al = Some r \<and> agrees b r
        \<and> fst ` set r = fst ` set al \<union> metaVarsOfArgs ps \<and> length ts = length ps"
proof (induction p b and ps b arbitrary: t and ts al rule: substitutePattern_substitutePatternArgs.induct)
  case (1 c m ps bindings)
  show ?case
  proof (cases "truthy m")
    case True
    with 1 show ?thesis by (auto simp: agrees_def)
  next
    case False
    with "1.prems" have c: "truthy c" by (auto split: if_splits)
    with False "1.prems" obtain args where
      args: "substitutePatternArgs ps bindings = Some args" "t = Term (the c) args None False"
      by (auto split: option.splits)
    have "agrees bindings []" by (simp add: agrees_def)
    from "1.IH"[OF False c args(1) this] show ?thesis using False c args by auto
  qed
next
  case (2 bindings)
  then show ?case by auto
next
  case (3 p ps bindings)
  from "3.prems"(1) obtain t' ts' where
    s: "substitutePattern p bindings = Some t'" "substitutePatternArgs ps bindings = Some ts'" "ts = t' # ts'"
    by (auto split: option.splits)
  from "3.IH"(1)[OF s(1)] obtain r1 where
    r1: "matchPattern t' p = Some r1" "agrees bindings r1" "fst ` set r1 = metaVarsOf p" by blast
  from mergeBindings_agrees[OF "3.prems"(2) r1(2)] obtain r2 where
    r2: "mergeBindings al r1 = Some r2" "agrees bindings r2" "fst ` set r2 = fst ` set al \<union> fst ` set r1" by blast
  from "3.IH"(2)[OF s(1) s(2) r2(2)] obtain r where
    r: "matchPatternArgs ts' ps r2 = Some r" "agrees bindings r"
       "fst ` set r = fst ` set r2 \<union> metaVarsOfArgs ps" "length ts' = length ps" by blast
  show ?case using s r1 r2 r by auto
qed

text \<open>
  Claim C5, as the code has it. For a complete pattern \<open>p\<close> and bindings \<open>b\<close> on
  which \<open>substitutePattern\<close> succeeds with term \<open>t\<close>, \<open>matchPattern t p\<close> succeeds, and
  the bindings it returns are, as a map, \<open>b\<close> restricted to the meta-variables that
  occur in \<open>p\<close>: the same terms for those, and no entry for any other key of \<open>b\<close>.
\<close>

theorem matchPattern_substitutePattern:
  assumes "isPatternComplete p" and "substitutePattern p b = Some t"
  shows "\<exists>r. matchPattern t p = Some r \<and> map_of r = map_of b |` metaVarsOf p"
  using match_subst_aux(1)[OF assms(2)] agrees_restrict by fastforce

theorem matchPattern_substitutePattern_witness:
  "isPatternComplete (Pattern (Some ''S'') None [Pattern None (Some ''n'') []])
   \<and> substitutePattern (Pattern (Some ''S'') None [Pattern None (Some ''n'') []])
         [(''n'', Term ''Z'' [] None False)]
       = Some (Term ''S'' [Term ''Z'' [] None False] None False)
   \<and> (\<exists>r. matchPattern (Term ''S'' [Term ''Z'' [] None False] None False)
              (Pattern (Some ''S'') None [Pattern None (Some ''n'') []]) = Some r
          \<and> map_of r = map_of [(''n'', Term ''Z'' [] None False)]
                |` metaVarsOf (Pattern (Some ''S'') None [Pattern None (Some ''n'') []]))"
  using matchPattern_substitutePattern
    [of "Pattern (Some ''S'') None [Pattern None (Some ''n'') []]"
        "[(''n'', Term ''Z'' [] None False)]"
        "Term ''S'' [Term ''Z'' [] None False] None False"]
  by simp

text \<open>
  The claim as stated fails when \<open>b\<close> binds a meta-variable that \<open>p\<close> does not mention:
  the pattern is the single meta-variable \<open>n\<close>, \<open>b\<close> binds \<open>n\<close> and \<open>m\<close>; the match
  returns the binding of \<open>n\<close> alone, which differs from \<open>b\<close> at \<open>m\<close>.
\<close>

theorem matchPattern_substitutePattern_counterexample:
  "isPatternComplete (Pattern None (Some ''n'') [])
   \<and> substitutePattern (Pattern None (Some ''n'') [])
         [(''n'', Term ''Z'' [] None False), (''m'', Term ''Z'' [] None False)]
       = Some (Term ''Z'' [] None False)
   \<and> matchPattern (Term ''Z'' [] None False) (Pattern None (Some ''n'') [])
       = Some [(''n'', Term ''Z'' [] None False)]
   \<and> map_of [(''n'', Term ''Z'' [] None False)] ''m''
       \<noteq> map_of [(''n'', Term ''Z'' [] None False), (''m'', Term ''Z'' [] None False)] ''m''"
  by simp

section \<open>Arithmetic simplifier\<close>

lemma list_all_zip_eq:
  "length as = length bs \<Longrightarrow> (\<And>a b. a \<in> set as \<Longrightarrow> f a b = (a = b)) \<Longrightarrow>
   list_all (\<lambda>(g, y). g y) (zip (map f as) bs) = (as = bs)"
proof (induction as arbitrary: bs)
  case Nil then show ?case by simp
next
  case (Cons a as)
  then show ?case by (cases bs) auto
qed

lemma formulaExprEqual_iff: "formulaExprEqual a b = (a = b)"
proof (induction a arbitrary: b)
  case (FE_constructor c as)
  show ?case
  proof (cases b)
    case (FE_constructor c' bs)
    show ?thesis
    proof (cases "length as = length bs")
      case True
      from list_all_zip_eq[OF True, of formulaExprEqual] FE_constructor.IH
      have "list_all (\<lambda>(g, y). g y) (zip (map formulaExprEqual as) bs) = (as = bs)" by blast
      with True show ?thesis by (auto simp: \<open>b = FE_constructor c' bs\<close>)
    next
      case False
      then show ?thesis by (auto simp: \<open>b = FE_constructor c' bs\<close>)
    qed
  qed auto
qed (auto split: FormulaExpr.splits)

lemma simp_eval: "evalExprToNumber e = Some v \<Longrightarrow> simplifyExpr e = FE_int v"
  by (cases e) auto

lemma simplifyAdd_fix:
  "simplifyExpr l = l \<Longrightarrow> simplifyExpr r = r \<Longrightarrow> simplifyExpr (simplifyAdd l r) = simplifyAdd l r"
  by (auto simp: simplifyAdd_def split: option.splits)

lemma simplifySub_fix:
  "simplifyExpr l = l \<Longrightarrow> simplifyExpr r = r \<Longrightarrow> simplifyExpr (simplifySub l r) = simplifySub l r"
  by (auto simp: simplifySub_def split: option.splits)

lemma simplifyMul_fix:
  "simplifyExpr l = l \<Longrightarrow> simplifyExpr r = r \<Longrightarrow> simplifyExpr (simplifyMul l r) = simplifyMul l r"
  by (auto simp: simplifyMul_def split: option.splits)

lemma simplifyMax_fix:
  "simplifyExpr l = l \<Longrightarrow> simplifyExpr r = r \<Longrightarrow> simplifyExpr (simplifyMax l r) = simplifyMax l r"
  by (auto simp: simplifyMax_def split: option.splits)

lemma simplifyMin_fix:
  "simplifyExpr l = l \<Longrightarrow> simplifyExpr r = r \<Longrightarrow> simplifyExpr (simplifyMin l r) = simplifyMin l r"
  by (auto simp: simplifyMin_def split: option.splits)

lemma simplifyExpr_fix: "simplifyExpr (simplifyExpr e) = simplifyExpr e"
proof (induction e)
  case (FE_add l r)
  then show ?case by (simp add: simplifyAdd_fix split: option.splits)
next
  case (FE_sub l r)
  then show ?case by (simp add: simplifySub_fix split: option.splits)
next
  case (FE_mul l r)
  then show ?case by (simp add: simplifyMul_fix split: option.splits)
next
  case (FE_max l r)
  then show ?case by (simp add: simplifyMax_fix split: option.splits)
next
  case (FE_min l r)
  then show ?case by (simp add: simplifyMin_fix split: option.splits)
qed simp_all

text \<open>
  Claim C6. \<open>simplifyExpr\<close> is idempotent, and an expression that \<open>evalExprToNumber\<close>
  evaluates to an integer evaluates to the same integer after simplification.
\<close>

theorem simplifyExpr_idempotent_preserving:
  "simplifyExpr (simplifyExpr e) = simplifyExpr e
   \<and> (\<forall>v. evalExprToNumber e = Some v \<longrightarrow> evalExprToNumber (simplifyExpr e) = Some v)"
  by (simp add: simplifyExpr_fix simp_eval)

theorem simplifyExpr_idempotent_preserving_witness:
  "evalExprToNumber (FE_sub (FE_mul (FE_int 2) (FE_int 3)) (FE_int 1)) = Some 5
   \<and> evalExprToNumber (simplifyExpr (FE_sub (FE_mul (FE_int 2) (FE_int 3)) (FE_int 1))) = Some 5
   \<and> simplifyExpr (simplifyExpr (FE_add (FE_var ''x'') (FE_sub (FE_var ''y'') (FE_var ''y''))))
       = simplifyExpr (FE_add (FE_var ''x'') (FE_sub (FE_var ''y'') (FE_var ''y'')))"
  using simplifyExpr_idempotent_preserving [of "FE_sub (FE_mul (FE_int 2) (FE_int 3)) (FE_int 1)"]
    simplifyExpr_idempotent_preserving [of "FE_add (FE_var ''x'') (FE_sub (FE_var ''y'') (FE_var ''y''))"]
  by simp

section \<open>Function evaluation: stuck results\<close>

text \<open>
  Claim C10. Given any fuel for at least one call, \<open>evaluateFunc\<close> returns \<open>null\<close> when
  the principal term is an atom occurrence (\<open>isVariable\<close> with its variable name, the
  test of the source) and when no case has the constructor id of the term. A body that
  is a bare variable reference evaluates to \<open>null\<close> in every environment, also one that
  binds the variable; so when the case selected for the constructor of a term has such
  a body, \<open>evaluateFunc\<close> returns \<open>null\<close> on the term.
\<close>

theorem evaluateFunc_undefined:
  "(isAtomTerm t \<longrightarrow> evaluateFunc (Suc fuel) f t funcs ctors = Some None)
   \<and> (find (\<lambda>c. fc_constructorId c = term_constructorId t) (rf_cases f) = None
        \<longrightarrow> evaluateFunc (Suc fuel) f t funcs ctors = Some None)
   \<and> evaluateExpr fuel (FX_var x) termEnv funcs ctors f = Some None
   \<and> (\<forall>matchingCase.
         find (\<lambda>c. fc_constructorId c = term_constructorId t) (rf_cases f) = Some matchingCase
         \<and> fc_body matchingCase = FX_var x
        \<longrightarrow> evaluateFunc (Suc fuel) f t funcs ctors = Some None)"
  by (auto split: option.splits)

theorem evaluateFunc_undefined_witness:
  "isAtomTerm (Term [] [] (Some ''x1'') True)
   \<and> evaluateFunc (Suc 0)
        \<lparr>rf_id = ''f'', rf_name = ''f'', rf_inputSortId = ''N'', rf_extraArgs = [],
         rf_returnType = RT_inductive ''N'',
         rf_cases = [\<lparr>fc_constructorId = ''S'', fc_boundVars = [''n''], fc_body = FX_var ''n''\<rparr>],
         rf_terminates = Some True, rf_terminationError = None\<rparr>
        (Term [] [] (Some ''x1'') True) [] [] = Some None
   \<and> find (\<lambda>c. fc_constructorId c = term_constructorId (Term ''Z'' [] None False))
        [\<lparr>fc_constructorId = ''S'', fc_boundVars = [''n''], fc_body = FX_var ''n''\<rparr>] = None
   \<and> evaluateFunc (Suc 0)
        \<lparr>rf_id = ''f'', rf_name = ''f'', rf_inputSortId = ''N'', rf_extraArgs = [],
         rf_returnType = RT_inductive ''N'',
         rf_cases = [\<lparr>fc_constructorId = ''S'', fc_boundVars = [''n''], fc_body = FX_var ''n''\<rparr>],
         rf_terminates = Some True, rf_terminationError = None\<rparr>
        (Term ''Z'' [] None False) [] [] = Some None
   \<and> find (\<lambda>c. fc_constructorId c = term_constructorId (Term ''S'' [Term ''Z'' [] None False] None False))
        [\<lparr>fc_constructorId = ''S'', fc_boundVars = [''n''], fc_body = FX_var ''n''\<rparr>]
       = Some \<lparr>fc_constructorId = ''S'', fc_boundVars = [''n''], fc_body = FX_var ''n''\<rparr>
   \<and> evaluateFunc (Suc 0)
        \<lparr>rf_id = ''f'', rf_name = ''f'', rf_inputSortId = ''N'', rf_extraArgs = [],
         rf_returnType = RT_inductive ''N'',
         rf_cases = [\<lparr>fc_constructorId = ''S'', fc_boundVars = [''n''], fc_body = FX_var ''n''\<rparr>],
         rf_terminates = Some True, rf_terminationError = None\<rparr>
        (Term ''S'' [Term ''Z'' [] None False] None False) []
        [(''S'', \<lparr>c_id = ''S'', c_sortId = ''N'', c_name = ''S'',
                  c_args = [\<lparr>ca_id = ''a'', ca_sortId = ''N'', ca_label = Some ''n'',
                             ca_isBinder = None, ca_bindsIn = None\<rparr>],
                  c_isTerminal = False\<rparr>)] = Some None"
  using
    evaluateFunc_undefined
      [where t = "Term [] [] (Some ''x1'') True" and fuel = 0 and funcs = "[]"
         and ctors = "[]" and x = "''n''" and termEnv = "[]"
         and f = "\<lparr>rf_id = ''f'', rf_name = ''f'', rf_inputSortId = ''N'', rf_extraArgs = [],
         rf_returnType = RT_inductive ''N'',
         rf_cases = [\<lparr>fc_constructorId = ''S'', fc_boundVars = [''n''], fc_body = FX_var ''n''\<rparr>],
         rf_terminates = Some True, rf_terminationError = None\<rparr>"]
    evaluateFunc_undefined
      [where t = "Term ''Z'' [] None False" and fuel = 0 and funcs = "[]"
         and ctors = "[]" and x = "''n''" and termEnv = "[]"
         and f = "\<lparr>rf_id = ''f'', rf_name = ''f'', rf_inputSortId = ''N'', rf_extraArgs = [],
         rf_returnType = RT_inductive ''N'',
         rf_cases = [\<lparr>fc_constructorId = ''S'', fc_boundVars = [''n''], fc_body = FX_var ''n''\<rparr>],
         rf_terminates = Some True, rf_terminationError = None\<rparr>"]
    evaluateFunc_undefined
      [where t = "Term ''S'' [Term ''Z'' [] None False] None False" and fuel = 0
         and funcs = "[]" and x = "''n''" and termEnv = "[]"
         and ctors = "[(''S'', \<lparr>c_id = ''S'', c_sortId = ''N'', c_name = ''S'',
                  c_args = [\<lparr>ca_id = ''a'', ca_sortId = ''N'', ca_label = Some ''n'',
                             ca_isBinder = None, ca_bindsIn = None\<rparr>],
                  c_isTerminal = False\<rparr>)]"
         and f = "\<lparr>rf_id = ''f'', rf_name = ''f'', rf_inputSortId = ''N'', rf_extraArgs = [],
         rf_returnType = RT_inductive ''N'',
         rf_cases = [\<lparr>fc_constructorId = ''S'', fc_boundVars = [''n''], fc_body = FX_var ''n''\<rparr>],
         rf_terminates = Some True, rf_terminationError = None\<rparr>"]
  by (simp add: isAtomTerm_def)

section \<open>Termination checking against evaluation\<close>

lemma mutual_loop:
  "evaluateFuncMulti fuel mutualF termZ [(''n'', termZ), (''k'', termZ)] mutualFunctions peanoConstructors = None
   \<and> evaluateFuncMulti fuel mutualG termZ [(''n'', termZ), (''k'', termZ)] mutualFunctions peanoConstructors = None"
proof (induction fuel)
  case 0
  show ?case by simp
next
  case (Suc fuel)
  have f: "evaluateFuncMulti (Suc fuel) mutualF termZ [(''n'', termZ), (''k'', termZ)] mutualFunctions peanoConstructors
         = evaluateFuncMulti fuel mutualG termZ [(''n'', termZ), (''k'', termZ)] mutualFunctions peanoConstructors"
    by (simp add: mutualF_def mutualG_def mutualFunctions_def peanoConstructors_def termZ_def isAtomTerm_def)
  have g: "evaluateFuncMulti (Suc fuel) mutualG termZ [(''n'', termZ), (''k'', termZ)] mutualFunctions peanoConstructors
         = evaluateFuncMulti fuel mutualF termZ [(''n'', termZ), (''k'', termZ)] mutualFunctions peanoConstructors"
    by (simp add: mutualF_def mutualG_def mutualFunctions_def peanoConstructors_def termZ_def isAtomTerm_def)
  from Suc f g show ?case by simp
qed

lemma mutual_entry:
  "evaluateFunc (Suc fuel) mutualF (termS termZ) mutualFunctions peanoConstructors
   = evaluateFuncMulti fuel mutualG termZ [(''n'', termZ), (''k'', termZ)] mutualFunctions peanoConstructors"
  by (simp add: mutualF_def mutualG_def mutualFunctions_def peanoConstructors_def termZ_def termS_def isAtomTerm_def)

text \<open>
  Claim C2 at the registry of \<open>mutualF\<close> and \<open>mutualG\<close>. \<open>checkTermination\<close> looks only
  at calls of a function to itself, so it accepts both functions. The evaluation of
  \<open>f\<close> on the closed term \<open>S(Z)\<close> calls \<open>g(Z, Z)\<close>, which calls \<open>f(Z, Z)\<close>, which calls
  \<open>g(Z, Z)\<close> again: no amount of fuel lets it return.
\<close>

theorem checkTermination_accepts_diverging:
  "checkTermination mutualF peanoConstructors mutualFunctions = Terminates
   \<and> checkTermination mutualG peanoConstructors mutualFunctions = Terminates
   \<and> (\<forall>fuel. evaluateFunc fuel mutualF (termS termZ) mutualFunctions peanoConstructors = None)"
proof (intro conjI allI)
  show "checkTermination mutualF peanoConstructors mutualFunctions = Terminates"
    by (simp add: checkTermination_def mutualF_def mutualG_def mutualFunctions_def peanoConstructors_def)
  show "checkTermination mutualG peanoConstructors mutualFunctions = Terminates"
    by (simp add: checkTermination_def mutualF_def mutualG_def mutualFunctions_def peanoConstructors_def)
  fix fuel
  show "evaluateFunc fuel mutualF (termS termZ) mutualFunctions peanoConstructors = None"
  proof (cases fuel)
    case 0
    then show ?thesis by simp
  next
    case (Suc m)
    then show ?thesis using mutual_entry[of m] mutual_loop[of m] by simp
  qed
qed

section \<open>Backward derivation on the Peano example\<close>

lemmas peano_defs = peanoRules_def ruleEZero_def ruleESucc_def ruleOSucc_def patZ_def patN_def patS_def
  termZ_def termS_def getRulesForJudgment_def isRuleComplete_def isJudgmentInstanceComplete_def

text \<open>
  Claim C7. With the even/odd rules of the example store, the backward derivation of
  \<open>even\<close> on \<open>S(S(Z))\<close> succeeds with the tree \<open>E-Succ(O-Succ(E-Zero))\<close>, each node with
  its conclusion and its children in premise order, and the derivation of \<open>even\<close> on
  \<open>S(Z)\<close> fails.
\<close>

theorem peano_even_derivation:
  "buildDerivation peanoRules ''even'' [termS (termS termZ)] 0
     = Some (Derivation ''E-Succ'' ''rESucc'' (''even'', [termS (termS termZ)])
              [Derivation ''O-Succ'' ''rOSucc'' (''odd'', [termS termZ])
                [Derivation ''E-Zero'' ''rEZero'' (''even'', [termZ]) []]])
   \<and> buildDerivation peanoRules ''even'' [termS termZ] 0 = None"
  by (simp add: peano_defs)

section \<open>Syntax-directedness analysis on a binary judgment\<close>

lemma leq_rules_disjoint:
  "matchConclusion [t1, t2] (ji_args (r_conclusion ruleLZero)) [] = None
   \<or> matchConclusion [t1, t2] (ji_args (r_conclusion ruleLSucc)) [] = None"
  by (cases t1) (auto simp: ruleLZero_def ruleLSucc_def patZ_def patS_def patN_def patM_def)

text \<open>
  Claim C4 at the judgment \<open>leqJudgment\<close>. The conclusions \<open>Z \<le> m\<close> and \<open>S(n) \<le> m\<close>
  cannot overlap in the first position, and no pair of terms is matched by both; the
  analysis still records the overlap of the two meta-variables in the second position
  and reports the judgment as not syntax-directed.
\<close>

theorem leq_not_syntax_directed:
  "analyzesSyntaxDirected leqJudgment [ruleLZero, ruleLSucc] peanoConstructors
     = Inr \<lparr>sda_isSyntaxDirected = False,
            sda_overlaps = [\<lparr>ov_rule1Id = ''rLZero'', ov_rule2Id = ''rLSucc'', ov_overlappingPosition = 1\<rparr>]\<rparr>
   \<and> \<not> patternsCanOverlap patZ (patS patN)
   \<and> (\<forall>t1 t2. matchConclusion [t1, t2] (ji_args (r_conclusion ruleLZero)) [] = None
              \<or> matchConclusion [t1, t2] (ji_args (r_conclusion ruleLSucc)) [] = None)"
  using leq_rules_disjoint
  by (simp add: analyzesSyntaxDirected_def leqJudgment_def ruleLZero_def ruleLSucc_def patZ_def patN_def patS_def patM_def)

section \<open>Deletion cascades of the store\<close>

lemma update_append_fresh:
  "k \<notin> fst ` set xs \<Longrightarrow> AList.update k v (xs @ ys) = xs @ AList.update k v ys"
  by (induction xs) auto

lemma delete_append_fresh:
  "k \<notin> fst ` set xs \<Longrightarrow> AList.delete k (xs @ ys) = xs @ AList.delete k ys"
  by (induction xs) (auto simp: AList.delete_eq)

lemma delete_fresh: "k \<notin> fst ` set xs \<Longrightarrow> AList.delete k xs = xs"
  by (induction xs) (auto simp: AList.delete_eq)

lemma delete_filter: "AList.delete k xs = filter (\<lambda>p. fst p \<noteq> k) xs"
  by (induction xs) auto

lemma filter_same_length: "length (filter P xs) = length xs \<Longrightarrow> filter P xs = xs"
proof (induction xs)
  case Nil
  then show ?case by simp
next
  case (Cons x xs)
  have "length (filter P xs) \<le> length xs" by simp
  with Cons show ?case by (cases "P x") auto
qed

lemma deleteSort_loop:
  "distinct (map fst es) \<Longrightarrow> fst ` set pre \<inter> fst ` set es = {} \<Longrightarrow>
   foldl (deleteSortStep sid) (pre @ es) es = pre @ filter (\<lambda>(cid, c). c_sortId c \<noteq> sid) es"
proof (induction es arbitrary: pre)
  case Nil
  then show ?case by simp
next
  case (Cons e es)
  obtain cid c where e: "e = (cid, c)" by (cases e)
  from Cons.prems e have fresh: "cid \<notin> fst ` set pre" "cid \<notin> fst ` set es" and d: "distinct (map fst es)"
    by auto
  show ?case
  proof (cases "c_sortId c = sid")
    case True
    from Cons.prems have "fst ` set pre \<inter> fst ` set es = {}" by auto
    from Cons.IH[OF d this] True fresh show ?thesis
      by (simp add: e deleteSortStep_def delete_append_fresh delete_fresh)
  next
    case False
    from Cons.prems fresh e have "fst ` set (pre @ [(cid, c)]) \<inter> fst ` set es = {}" by auto
    from Cons.IH[OF d this] False show ?thesis
      by (simp add: e deleteSortStep_def)
  qed
qed

lemma deleteProperty_loop:
  "distinct (map fst es) \<Longrightarrow> fst ` set pre \<inter> fst ` set es = {} \<Longrightarrow>
   foldl (deletePropertyStep pid) (pre @ es) es = pre @ filter (\<lambda>(proofId, p). pr_propertyId p \<noteq> pid) es"
proof (induction es arbitrary: pre)
  case Nil
  then show ?case by simp
next
  case (Cons e es)
  obtain k p where e: "e = (k, p)" by (cases e)
  from Cons.prems e have fresh: "k \<notin> fst ` set pre" "k \<notin> fst ` set es" and d: "distinct (map fst es)"
    by auto
  show ?case
  proof (cases "pr_propertyId p = pid")
    case True
    from Cons.prems have "fst ` set pre \<inter> fst ` set es = {}" by auto
    from Cons.IH[OF d this] True fresh show ?thesis
      by (simp add: e deletePropertyStep_def delete_append_fresh delete_fresh)
  next
    case False
    from Cons.prems fresh e have "fst ` set (pre @ [(k, p)]) \<inter> fst ` set es = {}" by auto
    from Cons.IH[OF d this] False show ?thesis
      by (simp add: e deletePropertyStep_def)
  qed
qed

lemma deleteJudgment_loop:
  "distinct (map fst es) \<Longrightarrow> fst ` set pre \<inter> fst ` set es = {} \<Longrightarrow>
   foldl (deleteJudgmentStep jid) (pre @ es) es
     = pre @ map (\<lambda>(rid, r). (rid, withoutPremisesOf jid r))
               (filter (\<lambda>(rid, r). ji_judgmentId (r_conclusion r) \<noteq> jid) es)"
proof (induction es arbitrary: pre)
  case Nil
  then show ?case by simp
next
  case (Cons e es)
  obtain rid r where e: "e = (rid, r)" by (cases e)
  from Cons.prems e have fresh: "rid \<notin> fst ` set pre" "rid \<notin> fst ` set es" and d: "distinct (map fst es)"
    by auto
  show ?case
  proof (cases "ji_judgmentId (r_conclusion r) = jid")
    case True
    from Cons.prems have "fst ` set pre \<inter> fst ` set es = {}" by auto
    from Cons.IH[OF d this] True fresh show ?thesis
      by (simp add: e deleteJudgmentStep_def delete_append_fresh delete_fresh)
  next
    case False
    show ?thesis
    proof (cases "length (filter (\<lambda>p. ji_judgmentId p \<noteq> jid) (r_premises r)) = length (r_premises r)")
      case True
      then have same: "withoutPremisesOf jid r = r"
        by (simp add: withoutPremisesOf_def filter_same_length)
      from Cons.prems fresh e have "fst ` set (pre @ [(rid, r)]) \<inter> fst ` set es = {}" by auto
      from Cons.IH[OF d this] False True same show ?thesis
        by (simp add: e deleteJudgmentStep_def)
    next
      case diff: False
      from Cons.prems fresh e
      have "fst ` set (pre @ [(rid, withoutPremisesOf jid r)]) \<inter> fst ` set es = {}" by auto
      from Cons.IH[OF d this] False diff fresh show ?thesis
        by (simp add: e deleteJudgmentStep_def update_append_fresh withoutPremisesOf_def Let_def)
    qed
  qed
qed

text \<open>
  Claim C9. In a store whose maps have unique keys, \<open>deleteSort\<close> removes the sort and
  exactly the constructors of that sort; \<open>deleteJudgment\<close> removes the judgment, exactly
  the rules that conclude it, and from every remaining rule the premises that refer to
  it; \<open>deleteProperty\<close> removes the property and exactly the proofs of it. The order of
  the remaining entries and every other registry of the store are unchanged; only the
  selection of the deleted sort, judgment or property is reset.
\<close>

theorem deletion_cascades:
  assumes "distinct (map fst (constructors s))"
    and "distinct (map fst (rules s))"
    and "distinct (map fst (proofs s))"
  shows "deleteSort sid s =
           s\<lparr>sorts := filter (\<lambda>(k, v). k \<noteq> sid) (sorts s),
             constructors := filter (\<lambda>(cid, c). c_sortId c \<noteq> sid) (constructors s),
             selectedSortId := (if selectedSortId s = Some sid then None else selectedSortId s)\<rparr>
       \<and> deleteJudgment jid s =
           s\<lparr>judgments := filter (\<lambda>(k, v). k \<noteq> jid) (judgments s),
             rules := map (\<lambda>(rid, r). (rid, r\<lparr>r_premises := filter (\<lambda>p. ji_judgmentId p \<noteq> jid) (r_premises r)\<rparr>))
                        (filter (\<lambda>(rid, r). ji_judgmentId (r_conclusion r) \<noteq> jid) (rules s)),
             selectedJudgmentId := (if selectedJudgmentId s = Some jid then None else selectedJudgmentId s)\<rparr>
       \<and> deleteProperty pid s =
           s\<lparr>properties := filter (\<lambda>(k, v). k \<noteq> pid) (properties s),
             proofs := filter (\<lambda>(proofId, p). pr_propertyId p \<noteq> pid) (proofs s),
             selectedPropertyId := (if selectedPropertyId s = Some pid then None else selectedPropertyId s)\<rparr>"
proof (intro conjI)
  show "deleteSort sid s =
           s\<lparr>sorts := filter (\<lambda>(k, v). k \<noteq> sid) (sorts s),
             constructors := filter (\<lambda>(cid, c). c_sortId c \<noteq> sid) (constructors s),
             selectedSortId := (if selectedSortId s = Some sid then None else selectedSortId s)\<rparr>"
    using deleteSort_loop[OF assms(1), of "[]" sid]
    by (simp add: deleteSort_def delete_filter case_prod_unfold)
  show "deleteJudgment jid s =
           s\<lparr>judgments := filter (\<lambda>(k, v). k \<noteq> jid) (judgments s),
             rules := map (\<lambda>(rid, r). (rid, r\<lparr>r_premises := filter (\<lambda>p. ji_judgmentId p \<noteq> jid) (r_premises r)\<rparr>))
                        (filter (\<lambda>(rid, r). ji_judgmentId (r_conclusion r) \<noteq> jid) (rules s)),
             selectedJudgmentId := (if selectedJudgmentId s = Some jid then None else selectedJudgmentId s)\<rparr>"
    using deleteJudgment_loop[OF assms(2), of "[]" jid]
    by (simp add: deleteJudgment_def delete_filter case_prod_unfold withoutPremisesOf_def)
  show "deleteProperty pid s =
           s\<lparr>properties := filter (\<lambda>(k, v). k \<noteq> pid) (properties s),
             proofs := filter (\<lambda>(proofId, p). pr_propertyId p \<noteq> pid) (proofs s),
             selectedPropertyId := (if selectedPropertyId s = Some pid then None else selectedPropertyId s)\<rparr>"
    using deleteProperty_loop[OF assms(3), of "[]" pid]
    by (simp add: deleteProperty_def delete_filter case_prod_unfold)
qed

theorem deletion_cascades_witness:
  "distinct (map fst (constructors exampleStore))
   \<and> distinct (map fst (rules exampleStore))
   \<and> distinct (map fst (proofs exampleStore))
   \<and> deleteSort ''N'' exampleStore =
       exampleStore\<lparr>sorts := [], constructors := [], selectedSortId := None\<rparr>
   \<and> deleteJudgment ''odd'' exampleStore =
       exampleStore\<lparr>judgments := [hd (judgments exampleStore)],
                    rules := [(''rEZero'', ruleEZero), (''rESucc'', ruleESucc\<lparr>r_premises := []\<rparr>)]\<rparr>
   \<and> deleteProperty ''p1'' exampleStore = exampleStore\<lparr>properties := [], proofs := []\<rparr>"
  using deletion_cascades [of exampleStore "''N''" "''odd''" "''p1''"]
  by (simp add: exampleStore_def peanoConstructors_def peanoRules_def
        ruleEZero_def ruleESucc_def ruleOSucc_def)

section \<open>Proof state transitions\<close>

lemma addGoals_keys: "fst ` set (addGoals gs m) = fst ` set m \<union> g_id ` set gs"
proof (induction gs arbitrary: m)
  case Nil
  show ?case by simp
next
  case (Cons g gs)
  have "fst ` set (AList.update (g_id g) g m) = insert (g_id g) (fst ` set m)"
    by (induction m) auto
  with Cons show ?case by auto
qed

lemma applyTacticToProof_cases:
  assumes "applyTacticToProof gen n P gid t cs ss fs rs = ((P', result), n')"
  obtains (failed) e where "result = Failure e" and "P' = P"
    | (stepped) g newGoals where "map_of (pr_goals P) gid = Some g" and "gid \<in> set (pr_openGoals P)"
      and "applyTactic gen n g t cs ss fs rs = (Success newGoals, n')"
      and "result = Success newGoals"
      and "P' = P\<lparr>pr_goals := addGoals newGoals (pr_goals P),
                   pr_steps := pr_steps P
                     @ [\<lparr>st_goalId = gid, st_tactic = t, st_resultingGoals = map g_id newGoals\<rparr>],
                   pr_openGoals := filter (\<lambda>x. x \<noteq> gid) (pr_openGoals P) @ map g_id newGoals,
                   pr_status := (if filter (\<lambda>x. x \<noteq> gid) (pr_openGoals P) @ map g_id newGoals = []
                                 then Complete else Incomplete)\<rparr>"
proof (cases "map_of (pr_goals P) gid")
  case None
  with assms failed show ?thesis by (auto simp: applyTacticToProof_def)
next
  case (Some g)
  show ?thesis
  proof (cases "gid \<in> set (pr_openGoals P)")
    case False
    with Some assms failed show ?thesis by (auto simp: applyTacticToProof_def)
  next
    case True
    obtain r n1 where app: "applyTactic gen n g t cs ss fs rs = (r, n1)"
      by (cases "applyTactic gen n g t cs ss fs rs")
    show ?thesis
    proof (cases r)
      case (Failure e)
      with Some True app assms have "result = Failure e" "P' = P"
        by (auto simp: applyTacticToProof_def)
      with failed[of e] show ?thesis by simp
    next
      case (Success newGoals)
      with Some True app assms show ?thesis
        by (intro stepped[of g newGoals]) (auto simp: applyTacticToProof_def Let_def)
    qed
  qed
qed

lemma find_snoc:
  "find P (xs @ [x]) = (case find P xs of Some y \<Rightarrow> Some y | None \<Rightarrow> if P x then Some x else None)"
  by (induction xs) auto

lemma addGoals_lookup:
  "map_of (addGoals gs m) k =
     (case find (\<lambda>h. g_id h = k) (rev gs) of Some h \<Rightarrow> Some h | None \<Rightarrow> map_of m k)"
proof (induction gs arbitrary: m)
  case Nil
  show ?case by simp
next
  case (Cons g gs)
  show ?case
    by (simp add: Cons find_snoc AList.update_conv' split: option.splits)
qed

lemma find_SomeD: "find P xs = Some y \<Longrightarrow> y \<in> set xs \<and> P y"
  by (induction xs) (auto split: if_splits)

lemma find_rev_distinct:
  assumes "distinct (map g_id gs)" and "h \<in> set gs"
  shows "find (\<lambda>g. g_id g = g_id h) (rev gs) = Some h"
proof (cases "find (\<lambda>g. g_id g = g_id h) (rev gs)")
  case None
  with assms(2) show ?thesis by (auto simp: find_None_iff)
next
  case (Some y)
  from find_SomeD[OF Some] have "y \<in> set gs" and "g_id y = g_id h" by simp_all
  with assms have "y = h" by (auto simp: distinct_map dest: inj_onD)
  with Some show ?thesis by simp
qed

lemma stored_new_goals:
  "distinct (map g_id gs) \<Longrightarrow> h \<in> set gs \<Longrightarrow> map_of (addGoals gs m) (g_id h) = Some h"
  by (simp add: addGoals_lookup find_rev_distinct)

lemma stored_old_goals:
  assumes "k \<notin> g_id ` set gs"
  shows "map_of (addGoals gs m) k = map_of m k"
proof (cases "find (\<lambda>h. g_id h = k) (rev gs)")
  case None
  then show ?thesis by (simp add: addGoals_lookup)
next
  case (Some y)
  from find_SomeD[OF Some] assms have False by auto
  then show ?thesis ..
qed

text \<open>
  Claim C1. A call of \<open>applyTacticToProof\<close> on proof \<open>P\<close>, goal id \<open>gid\<close> and tactic \<open>t\<close>
  fails and returns \<open>P\<close> itself when \<open>gid\<close> is not a key of the goals map, when \<open>gid\<close> is
  not in \<open>openGoals\<close>, and when \<open>applyTactic\<close> fails on the goal \<open>g\<close> stored under \<open>gid\<close>,
  with the error of \<open>applyTactic\<close>. When \<open>g\<close> is open and \<open>applyTactic\<close> succeeds on it with
  the goals \<open>newGoals\<close>, the call succeeds with them, and the returned proof has \<open>gid\<close>
  filtered out of \<open>openGoals\<close> with the ids of the new goals appended in order, the step
  \<open>(gid, t, ids of the new goals)\<close> appended to the step log, status \<open>complete\<close> exactly
  when the new \<open>openGoals\<close> is empty and \<open>incomplete\<close> otherwise, and a goals map that
  gives, for every id, the last new goal with that id, or else what the old map gave:
  each new goal is stored under its id when the new ids are distinct, and every other
  entry is kept. Nothing else of the proof changes. In every case the call either
  fails and leaves \<open>P\<close> unchanged or makes this step.
\<close>

theorem applyTacticToProof_transition:
  "case applyTacticToProof gen n P gid t cs ss fs rs of
     ((P', result), n') \<Rightarrow>
       ((\<exists>e. result = Failure e) \<and> P' = P
        \<or> (\<exists>g newGoals.
              map_of (pr_goals P) gid = Some g \<and> gid \<in> set (pr_openGoals P)
              \<and> applyTactic gen n g t cs ss fs rs = (Success newGoals, n')
              \<and> result = Success newGoals
              \<and> pr_openGoals P' = filter (\<lambda>x. x \<noteq> gid) (pr_openGoals P) @ map g_id newGoals
              \<and> pr_goals P' = addGoals newGoals (pr_goals P)
              \<and> fst ` set (pr_goals P') = fst ` set (pr_goals P) \<union> g_id ` set newGoals
              \<and> pr_steps P' = pr_steps P
                    @ [\<lparr>st_goalId = gid, st_tactic = t, st_resultingGoals = map g_id newGoals\<rparr>]
              \<and> (pr_status P' = Complete \<longleftrightarrow> pr_openGoals P' = [])
              \<and> pr_status P' \<noteq> Invalid
              \<and> pr_id P' = pr_id P \<and> pr_propertyId P' = pr_propertyId P
              \<and> pr_rootGoalId P' = pr_rootGoalId P))
       \<and> (gid \<notin> set (pr_openGoals P) \<longrightarrow> (\<exists>e. result = Failure e) \<and> P' = P)
       \<and> (map_of (pr_goals P) gid = None \<longrightarrow> (\<exists>e. result = Failure e) \<and> P' = P)
       \<and> (\<forall>g. map_of (pr_goals P) gid = Some g \<and> gid \<in> set (pr_openGoals P) \<longrightarrow>
             (case applyTactic gen n g t cs ss fs rs of
                (Failure e, m) \<Rightarrow> result = Failure e \<and> P' = P \<and> n' = m
              | (Success newGoals, m) \<Rightarrow>
                  result = Success newGoals \<and> n' = m
                  \<and> pr_openGoals P' = filter (\<lambda>x. x \<noteq> gid) (pr_openGoals P) @ map g_id newGoals
                  \<and> pr_steps P' = pr_steps P
                        @ [\<lparr>st_goalId = gid, st_tactic = t, st_resultingGoals = map g_id newGoals\<rparr>]
                  \<and> pr_status P' = (if pr_openGoals P' = [] then Complete else Incomplete)
                  \<and> pr_goals P' = addGoals newGoals (pr_goals P)
                  \<and> (\<forall>k. map_of (pr_goals P') k =
                          (case find (\<lambda>h. g_id h = k) (rev newGoals) of
                             Some h \<Rightarrow> Some h
                           | None \<Rightarrow> map_of (pr_goals P) k))
                  \<and> (distinct (map g_id newGoals) \<longrightarrow>
                        (\<forall>h \<in> set newGoals. map_of (pr_goals P') (g_id h) = Some h))
                  \<and> (\<forall>k. k \<notin> g_id ` set newGoals \<longrightarrow> map_of (pr_goals P') k = map_of (pr_goals P) k)
                  \<and> pr_id P' = pr_id P \<and> pr_propertyId P' = pr_propertyId P
                  \<and> pr_rootGoalId P' = pr_rootGoalId P))"
proof (cases "map_of (pr_goals P) gid")
  case None
  then show ?thesis by (simp add: applyTacticToProof_def)
next
  case (Some g)
  show ?thesis
  proof (cases "gid \<in> set (pr_openGoals P)")
    case False
    with Some show ?thesis by (simp add: applyTacticToProof_def)
  next
    case True
    obtain r m where app: "applyTactic gen n g t cs ss fs rs = (r, m)"
      by (cases "applyTactic gen n g t cs ss fs rs")
    show ?thesis
    proof (cases r)
      case (Failure e)
      with Some True app show ?thesis by (simp add: applyTacticToProof_def)
    next
      case (Success newGoals)
      have new: "distinct (map g_id newGoals) \<longrightarrow>
                   (\<forall>h \<in> set newGoals. map_of (addGoals newGoals (pr_goals P)) (g_id h) = Some h)"
        by (simp add: stored_new_goals)
      have old: "\<forall>k. k \<notin> g_id ` set newGoals \<longrightarrow>
                   map_of (addGoals newGoals (pr_goals P)) k = map_of (pr_goals P) k"
        by (simp add: stored_old_goals)
      have look: "\<forall>k. map_of (addGoals newGoals (pr_goals P)) k =
                   (case find (\<lambda>h. g_id h = k) (rev newGoals) of
                      Some h \<Rightarrow> Some h
                    | None \<Rightarrow> map_of (pr_goals P) k)"
        by (simp add: addGoals_lookup)
      have res: "applyTacticToProof gen n P gid t cs ss fs rs =
          ((P\<lparr>pr_goals := addGoals newGoals (pr_goals P),
              pr_steps := pr_steps P
                @ [\<lparr>st_goalId = gid, st_tactic = t, st_resultingGoals = map g_id newGoals\<rparr>],
              pr_openGoals := filter (\<lambda>x. x \<noteq> gid) (pr_openGoals P) @ map g_id newGoals,
              pr_status := (if filter (\<lambda>x. x \<noteq> gid) (pr_openGoals P) @ map g_id newGoals = []
                            then Complete else Incomplete)\<rparr>,
            Success newGoals), m)"
        using Some True app Success by (simp add: applyTacticToProof_def Let_def)
      show ?thesis
        unfolding res using Some True app Success new old look
        by (simp add: addGoals_keys del: map_of_eq_Some_iff)
    qed
  qed
qed

theorem applyTacticToProof_transition_witness:
  "map_of (pr_goals (fst (createProof exampleGen 0 conjProperty))) (exampleGen 0)
     = Some \<lparr>g_id = exampleGen 0, g_context = \<lparr>ctx_variables = [], ctx_hypotheses = []\<rparr>,
             g_goal = F_conn K_and F_true F_false\<rparr>
   \<and> exampleGen 0 \<in> set (pr_openGoals (fst (createProof exampleGen 0 conjProperty)))
   \<and> applyTactic exampleGen 2
        \<lparr>g_id = exampleGen 0, g_context = \<lparr>ctx_variables = [], ctx_hypotheses = []\<rparr>,
         g_goal = F_conn K_and F_true F_false\<rparr> T_split [] [] [] []
     = (Success
          [\<lparr>g_id = exampleGen 2, g_context = \<lparr>ctx_variables = [], ctx_hypotheses = []\<rparr>,
            g_goal = F_true\<rparr>,
           \<lparr>g_id = exampleGen 3, g_context = \<lparr>ctx_variables = [], ctx_hypotheses = []\<rparr>,
            g_goal = F_false\<rparr>], 4)
   \<and> snd (fst (applyTacticToProof exampleGen 2 (fst (createProof exampleGen 0 conjProperty))
                  (exampleGen 0) T_split [] [] [] []))
     = Success
          [\<lparr>g_id = exampleGen 2, g_context = \<lparr>ctx_variables = [], ctx_hypotheses = []\<rparr>,
            g_goal = F_true\<rparr>,
           \<lparr>g_id = exampleGen 3, g_context = \<lparr>ctx_variables = [], ctx_hypotheses = []\<rparr>,
            g_goal = F_false\<rparr>]
   \<and> pr_openGoals (fst (fst (applyTacticToProof exampleGen 2
          (fst (createProof exampleGen 0 conjProperty)) (exampleGen 0) T_split [] [] [] [])))
     = [exampleGen 2, exampleGen 3]
   \<and> pr_steps (fst (fst (applyTacticToProof exampleGen 2
          (fst (createProof exampleGen 0 conjProperty)) (exampleGen 0) T_split [] [] [] [])))
     = [\<lparr>st_goalId = exampleGen 0, st_tactic = T_split,
         st_resultingGoals = [exampleGen 2, exampleGen 3]\<rparr>]
   \<and> pr_status (fst (fst (applyTacticToProof exampleGen 2
          (fst (createProof exampleGen 0 conjProperty)) (exampleGen 0) T_split [] [] [] [])))
     = Incomplete
   \<and> [] \<notin> set (pr_openGoals (fst (createProof exampleGen 0 conjProperty)))
   \<and> applyTacticToProof exampleGen 2 (fst (createProof exampleGen 0 conjProperty)) []
       T_split [] [] [] []
     = ((fst (createProof exampleGen 0 conjProperty), Failure GoalNotFound), 2)"
  using
    applyTacticToProof_transition
      [where gen = exampleGen and n = 2 and P = "fst (createProof exampleGen 0 conjProperty)"
         and gid = "exampleGen 0" and t = T_split and cs = "[]" and ss = "[]" and fs = "[]"
         and rs = "[]"]
    applyTacticToProof_transition
      [where gen = exampleGen and n = 2 and P = "fst (createProof exampleGen 0 conjProperty)"
         and gid = "[]" and t = T_split and cs = "[]" and ss = "[]" and fs = "[]"
         and rs = "[]"]
  by (simp add: applyTacticToProof_def applyTactic_def applySplit_def newGoal_def createProof_def
        uuidv4_def conjProperty_def exampleGen_def Let_def numeral_2_eq_2 numeral_3_eq_3)

section \<open>Invariants of reachable proofs\<close>

lemma createProof_invariant: "proofInvariant (fst (createProof gen n property))"
  by (simp add: proofInvariant_def createProof_def uuidv4_def Let_def)

lemma applyTacticToProof_invariant:
  assumes "proofInvariant P"
  shows "proofInvariant (fst (fst (applyTacticToProof gen n P gid t cs ss fs rs)))"
proof -
  obtain P' result n' where r: "applyTacticToProof gen n P gid t cs ss fs rs = ((P', result), n')"
    by (metis surj_pair)
  from r have "proofInvariant P'"
  proof (cases rule: applyTacticToProof_cases)
    case (failed e)
    with assms show ?thesis by simp
  next
    case (stepped g newGoals)
    from assms have "set (pr_openGoals P) \<subseteq> fst ` set (pr_goals P)"
      and "pr_rootGoalId P \<in> fst ` set (pr_goals P)" by (auto simp: proofInvariant_def)
    with stepped(5) show ?thesis
      by (auto simp: proofInvariant_def addGoals_keys)
  qed
  with r show ?thesis by simp
qed

lemma applyCalls_invariant:
  "proofInvariant P \<Longrightarrow> proofInvariant (fst (applyCalls gen n P calls))"
proof (induction calls arbitrary: P n)
  case Nil
  then show ?case by simp
next
  case (Cons c calls)
  obtain P' result n' where r:
    "applyTacticToProof gen n P (tc_goalId c) (tc_tactic c)
        (tc_constructors c) (tc_sorts c) (tc_functions c) (tc_rules c) = ((P', result), n')"
    by (metis surj_pair)
  from applyTacticToProof_invariant[OF Cons.prems, where gen=gen and n=n and gid="tc_goalId c"
      and t="tc_tactic c" and cs="tc_constructors c" and ss="tc_sorts c" and fs="tc_functions c"
      and rs="tc_rules c"] r
  have "proofInvariant P'" by simp
  from Cons.IH[OF this] r show ?case by simp
qed

text \<open>
  Claim C8. The proof made by \<open>createProof\<close> for any property, after any sequence of
  calls of \<open>applyTacticToProof\<close> (any goal ids, tactics and registries, any drawn ids),
  has its open goals and its root goal among the keys of the goals map, and has status
  \<open>complete\<close> exactly when no goal is open.
\<close>

theorem reachable_proof_invariants:
  "set (pr_openGoals (fst (applyCalls gen m (fst (createProof gen n property)) calls)))
     \<subseteq> fst ` set (pr_goals (fst (applyCalls gen m (fst (createProof gen n property)) calls)))
   \<and> pr_rootGoalId (fst (applyCalls gen m (fst (createProof gen n property)) calls))
     \<in> fst ` set (pr_goals (fst (applyCalls gen m (fst (createProof gen n property)) calls)))
   \<and> (pr_status (fst (applyCalls gen m (fst (createProof gen n property)) calls)) = Complete
      \<longleftrightarrow> pr_openGoals (fst (applyCalls gen m (fst (createProof gen n property)) calls)) = [])"
  using applyCalls_invariant[OF createProof_invariant, where gen=gen and n=m and ?gen1=gen and ?n1=n and ?property1=property and calls=calls]
  by (simp add: proofInvariant_def)

theorem reachable_proof_invariants_witness:
  "fst (applyCalls exampleGen 2 (fst (createProof exampleGen 0 truthProperty))
          [\<lparr>tc_goalId = exampleGen 0, tc_tactic = T_trivial, tc_constructors = [], tc_sorts = [],
            tc_functions = [], tc_rules = []\<rparr>])
     = (fst (createProof exampleGen 0 truthProperty))
         \<lparr>pr_steps := [\<lparr>st_goalId = exampleGen 0, st_tactic = T_trivial, st_resultingGoals = []\<rparr>],
          pr_openGoals := [], pr_status := Complete\<rparr>
   \<and> pr_rootGoalId (fst (applyCalls exampleGen 2 (fst (createProof exampleGen 0 truthProperty))
          [\<lparr>tc_goalId = exampleGen 0, tc_tactic = T_trivial, tc_constructors = [], tc_sorts = [],
            tc_functions = [], tc_rules = []\<rparr>]))
     \<in> fst ` set (pr_goals (fst (applyCalls exampleGen 2 (fst (createProof exampleGen 0 truthProperty))
          [\<lparr>tc_goalId = exampleGen 0, tc_tactic = T_trivial, tc_constructors = [], tc_sorts = [],
            tc_functions = [], tc_rules = []\<rparr>])))"
  using reachable_proof_invariants
      [where gen = exampleGen and m = 2 and n = 0 and property = truthProperty
         and calls = "[\<lparr>tc_goalId = exampleGen 0, tc_tactic = T_trivial, tc_constructors = [],
                        tc_sorts = [], tc_functions = [], tc_rules = []\<rparr>]"]
  by (simp add: applyTacticToProof_def applyTactic_def applyTrivial_def createProof_def
        uuidv4_def truthProperty_def exampleGen_def Let_def)

section \<open>The induction tactic\<close>












text \<open>
  The names of the introduced variables are not checked against the context, unlike
  the name that \<open>intro\<close> introduces. On the goal \<open>k = S(n)\<close> with \<open>n\<close> and \<open>k\<close> in the
  context, \<open>induction(k)\<close> names the argument of \<open>S\<close> by its label \<open>n\<close>: the subgoal for
  \<open>S\<close> has two variables \<open>n\<close>, the hypothesis \<open>IH_n : n = S(n)\<close> and the goal
  \<open>S(n) = S(n)\<close>.
\<close>

lemma induction_names_not_checked:
  "\<not> list_all (freshNamesFor clashGoal ''k'') (filter (\<lambda>c. c_sortId c = ''N'') (map snd peanoConstructors))
   \<and> fst (applyTactic exampleGen 0 clashGoal (T_induction ''k'') peanoConstructors exampleSorts [] [])
     = Success
         [\<lparr>g_id = exampleGen 0,
           g_context = \<lparr>ctx_variables = [\<lparr>v_name = ''n'', v_sortId = ''N''\<rparr>], ctx_hypotheses = []\<rparr>,
           g_goal = F_cmp K_termEq (FE_constructor ''cZ'' []) (FE_constructor ''cS'' [FE_var ''n''])\<rparr>,
          \<lparr>g_id = exampleGen 2,
           g_context =
             \<lparr>ctx_variables = [\<lparr>v_name = ''n'', v_sortId = ''N''\<rparr>, \<lparr>v_name = ''n'', v_sortId = ''N''\<rparr>],
              ctx_hypotheses =
                [\<lparr>h_id = exampleGen 1, h_name = ''IH_n'',
                  h_formula = F_cmp K_termEq (FE_var ''n'') (FE_constructor ''cS'' [FE_var ''n''])\<rparr>]\<rparr>,
           g_goal = F_cmp K_termEq (FE_constructor ''cS'' [FE_var ''n''])
                      (FE_constructor ''cS'' [FE_var ''n''])\<rparr>]"
  by (simp add: applyTactic_def applyInduction_def inductionGoal_def freshVars_def
        constructorExpr_def newGoal_def uuidv4_def clashGoal_def peanoConstructors_def
        exampleSorts_def Let_def numeral_2_eq_2 freshNamesFor_def)

end
